theory Spec2Isabelle
  imports Complex_Main
begin

section \<open>Numbers and running extrema\<close>

text \<open>
  The planner is JavaScript; every coordinate, length and angle is a number. Coordinates
  are modelled as \<^typ>\<open>real\<close> (rounding of IEEE doubles is not modelled), list
  indices as \<^typ>\<open>nat\<close> where the source produces them from a loop counter and
  as \<^typ>\<open>int\<close> where they arrive from a request.

  The source computes extrema with accumulators initialised to \<open>Infinity\<close> and
  \<open>-Infinity\<close>. An accumulator is a \<^typ>\<open>real option\<close>: \<open>None\<close> is the
  accumulator still at its infinite initial value, \<open>Some m\<close> a finite value
  (\<open>Math.min(Infinity, v) = v\<close>).
\<close>

definition js_min :: "real option \<Rightarrow> real \<Rightarrow> real option" where
  "js_min acc v = Some (case acc of None \<Rightarrow> v | Some m \<Rightarrow> min m v)"

definition js_max :: "real option \<Rightarrow> real \<Rightarrow> real option" where
  "js_max acc v = Some (case acc of None \<Rightarrow> v | Some m \<Rightarrow> max m v)"

section \<open>Data model of the 2D editor\<close>

record vertex =
  v_x :: real
  v_y :: real

text \<open>\<open>{minX, maxX, minY, maxY}\<close>; the terrace bounding box carries its size as well.\<close>

record bounds =
  minX :: real
  maxX :: real
  minY :: real
  maxY :: real

record tbounds = bounds +
  width :: real
  height :: real

record rect =
  r_x :: real
  r_y :: real
  r_w :: real
  r_h :: real

record obstacle =
  o_x :: real
  o_y :: real
  o_w :: real
  o_h :: real
  o_type :: string

text \<open>A beam drawn by hand has no \<open>isAutoStructure\<close> property (falsy): \<open>False\<close>.\<close>

record beam =
  b_x1 :: real
  b_y1 :: real
  b_x2 :: real
  b_y2 :: real
  b_profile :: string
  b_isAutoStructure :: bool

text \<open>\<open>realHeight\<close> may be missing on a panel of an older record: \<open>None\<close>.\<close>

record panel =
  p_x :: real
  p_y :: real
  p_w :: real
  p_h :: real
  p_realHeight :: "real option"
  p_inclination :: real
  p_power :: real

record text_item =
  t_x :: real
  t_y :: real
  t_text :: string
  t_size :: real

record panel_config =
  pc_width :: real
  pc_height :: real
  pc_inclination :: real
  pc_power :: real

record text_config =
  tc_content :: string
  tc_size :: real

datatype elem_type = PanelT | ObstacleT | BeamT | TextT

type_synonym selection_entry = "elem_type \<times> nat"

record editor2d =
  scale :: real
  terraceVertices :: "vertex list"
  constructionBounds :: "bounds option"
  panelBounds :: "bounds option"
  obstacles :: "obstacle list"
  beams :: "beam list"
  panels :: "panel list"
  texts :: "text_item list"
  tempPoints :: "vertex list"
  selectedElements :: "selection_entry list"
  panelConfig :: panel_config
  textConfig :: text_config

text \<open>The constructor: \<open>this.scale = options.scale || 4\<close>, everything else empty.\<close>

definition newEditor2D :: "real option \<Rightarrow> editor2d" where
  "newEditor2D optScale =
     \<lparr>scale = (case optScale of None \<Rightarrow> 4 | Some v \<Rightarrow> if v = 0 then 4 else v),
      terraceVertices = [], constructionBounds = None, panelBounds = None,
      obstacles = [], beams = [], panels = [], texts = [], tempPoints = [],
      selectedElements = [],
      panelConfig = \<lparr>pc_width = 114, pc_height = 228, pc_inclination = 0, pc_power = 610\<rparr>,
      textConfig = \<lparr>tc_content = ''Texto'', tc_size = 14\<rparr>\<rparr>"

section \<open>Bounds engine\<close>

text \<open>\<open>getTerraceBounds\<close>: \<open>null\<close> below three vertices, else the bounding box.\<close>

definition getTerraceBounds :: "vertex list \<Rightarrow> tbounds option" where
  "getTerraceBounds vs =
     (if length vs < 3 then None
      else (case (fold (\<lambda>v a. js_min a (v_x v)) vs None,
                  fold (\<lambda>v a. js_max a (v_x v)) vs None,
                  fold (\<lambda>v a. js_min a (v_y v)) vs None,
                  fold (\<lambda>v a. js_max a (v_y v)) vs None) of
              (Some mnx, Some mxx, Some mny, Some mxy) \<Rightarrow>
                 Some \<lparr>minX = mnx, maxX = mxx, minY = mny, maxY = mxy,
                       width = mxx - mnx, height = mxy - mny\<rparr>
            | _ \<Rightarrow> None))"

definition calculateConstructionBounds :: "'a bounds_scheme \<Rightarrow> real \<Rightarrow> bounds" where
  "calculateConstructionBounds b margin =
     \<lparr>minX = minX b - margin, maxX = maxX b + margin,
      minY = minY b - margin, maxY = maxY b + margin\<rparr>"

definition calculatePanelBounds :: "'a bounds_scheme \<Rightarrow> real \<Rightarrow> bounds" where
  "calculatePanelBounds b margin =
     \<lparr>minX = minX b - margin, maxX = maxX b + margin,
      minY = minY b - margin, maxY = maxY b + margin\<rparr>"

definition isWithinConstructionBounds :: "editor2d \<Rightarrow> real \<Rightarrow> real \<Rightarrow> bool" where
  "isWithinConstructionBounds s x y =
     (case constructionBounds s of
        None \<Rightarrow> True
      | Some cb \<Rightarrow> x \<ge> minX cb \<and> x \<le> maxX cb \<and> y \<ge> minY cb \<and> y \<le> maxY cb)"

definition isRectWithinPanelBounds :: "editor2d \<Rightarrow> rect \<Rightarrow> bool" where
  "isRectWithinPanelBounds s r =
     (case panelBounds s of
        None \<Rightarrow> True
      | Some pb \<Rightarrow> r_x r \<ge> minX pb \<and> r_y r \<ge> minY pb \<and>
                  r_x r + r_w r \<le> maxX pb \<and> r_y r + r_h r \<le> maxY pb)"

definition isLineWithinConstructionBounds ::
  "editor2d \<Rightarrow> real \<Rightarrow> real \<Rightarrow> real \<Rightarrow> real \<Rightarrow> bool" where
  "isLineWithinConstructionBounds s x1 y1 x2 y2 =
     (case constructionBounds s of
        None \<Rightarrow> True
      | Some cb \<Rightarrow> isWithinConstructionBounds s x1 y1 \<and> isWithinConstructionBounds s x2 y2)"

text \<open>
  The three places that replace the terrace recompute both bounds the same way: the
  construction bounds from the terrace box with margin 10, the panel bounds from the
  construction bounds with margin 40. A missing terrace box leaves the bounds as they are.
\<close>

definition confirmTerrace :: "editor2d \<Rightarrow> editor2d" where
  "confirmTerrace s =
     (if length (tempPoints s) \<ge> 3 then
        (let s1 = s\<lparr>terraceVertices := tempPoints s\<rparr>;
             s2 = (case getTerraceBounds (terraceVertices s1) of
                     None \<Rightarrow> s1
                   | Some b \<Rightarrow>
                       (let cb = calculateConstructionBounds b 10
                        in s1\<lparr>constructionBounds := Some cb,
                              panelBounds := Some (calculatePanelBounds cb 40)\<rparr>))
         in s2\<lparr>tempPoints := []\<rparr>)
      else s)"

definition setRectangularTerrace :: "real \<Rightarrow> real \<Rightarrow> editor2d \<Rightarrow> editor2d" where
  "setRectangularTerrace w h s =
     (let s1 = s\<lparr>terraceVertices :=
                  [\<lparr>v_x = 0, v_y = 0\<rparr>, \<lparr>v_x = w, v_y = 0\<rparr>,
                   \<lparr>v_x = w, v_y = h\<rparr>, \<lparr>v_x = 0, v_y = h\<rparr>]\<rparr>
      in (case getTerraceBounds (terraceVertices s1) of
            None \<Rightarrow> s1
          | Some b \<Rightarrow>
              (let cb = calculateConstructionBounds b 10
               in s1\<lparr>constructionBounds := Some cb,
                     panelBounds := Some (calculatePanelBounds cb 40)\<rparr>)))"

text \<open>
  \<open>clearAll\<close> resets a property \<open>selectedElement\<close> that nothing reads; the
  selection \<open>selectedElements\<close> stays as it is.
\<close>

definition clearAll :: "editor2d \<Rightarrow> editor2d" where
  "clearAll s =
     s\<lparr>terraceVertices := [], constructionBounds := None, panelBounds := None,
       obstacles := [], beams := [], panels := [], texts := [], tempPoints := []\<rparr>"

section \<open>Export and import\<close>

text \<open>
  The exported record. On import every property may be missing (or falsy) and is then
  defaulted, so each is an option; \<open>panelConfig\<close> and \<open>textConfig\<close> are merged
  property by property into the editor's own (\<open>{...this.panelConfig, ...data.panelConfig}\<close>),
  so their properties are options too.
\<close>

record panel_config_data =
  pcd_width :: "real option"
  pcd_height :: "real option"
  pcd_inclination :: "real option"
  pcd_power :: "real option"

record text_config_data =
  tcd_content :: "string option"
  tcd_size :: "real option"

record editor_data =
  d_terraceVertices :: "vertex list option"
  d_constructionBounds :: "bounds option"
  d_panelBounds :: "bounds option"
  d_obstacles :: "obstacle list option"
  d_beams :: "beam list option"
  d_panels :: "panel list option"
  d_texts :: "text_item list option"
  d_panelConfig :: "panel_config_data option"
  d_textConfig :: "text_config_data option"
  d_scale :: "real option"


definition or_default :: "'a option \<Rightarrow> 'a \<Rightarrow> 'a" where
  "or_default v d = (case v of None \<Rightarrow> d | Some a \<Rightarrow> a)"

definition mergePanelConfig :: "panel_config \<Rightarrow> panel_config_data \<Rightarrow> panel_config" where
  "mergePanelConfig c d =
     \<lparr>pc_width = or_default (pcd_width d) (pc_width c),
      pc_height = or_default (pcd_height d) (pc_height c),
      pc_inclination = or_default (pcd_inclination d) (pc_inclination c),
      pc_power = or_default (pcd_power d) (pc_power c)\<rparr>"

definition mergeTextConfig :: "text_config \<Rightarrow> text_config_data \<Rightarrow> text_config" where
  "mergeTextConfig c d =
     \<lparr>tc_content = or_default (tcd_content d) (tc_content c),
      tc_size = or_default (tcd_size d) (tc_size c)\<rparr>"

text \<open>\<open>if (data.scale) this.scale = data.scale\<close>: a missing or zero scale is falsy.\<close>

definition importScale :: "real option \<Rightarrow> real \<Rightarrow> real" where
  "importScale v cur = (case v of None \<Rightarrow> cur | Some a \<Rightarrow> if a = 0 then cur else a)"

definition importData :: "editor_data option \<Rightarrow> editor2d \<Rightarrow> editor2d" where
  "importData data s =
     (case data of
        None \<Rightarrow> s
      | Some d \<Rightarrow>
          (let s1 = s\<lparr>terraceVertices := or_default (d_terraceVertices d) [],
                      constructionBounds := d_constructionBounds d,
                      panelBounds := d_panelBounds d,
                      obstacles := or_default (d_obstacles d) [],
                      beams := or_default (d_beams d) [],
                      panels := or_default (d_panels d) [],
                      texts := or_default (d_texts d) [],
                      panelConfig := (case d_panelConfig d of
                                        None \<Rightarrow> panelConfig s
                                      | Some c \<Rightarrow> mergePanelConfig (panelConfig s) c),
                      textConfig := (case d_textConfig d of
                                       None \<Rightarrow> textConfig s
                                     | Some c \<Rightarrow> mergeTextConfig (textConfig s) c),
                      scale := importScale (d_scale d) (scale s)\<rparr>
           in if (constructionBounds s1 = None \<or> panelBounds s1 = None) \<and>
                 length (terraceVertices s1) \<ge> 3
              then (case getTerraceBounds (terraceVertices s1) of
                      None \<Rightarrow> s1
                    | Some b \<Rightarrow>
                        (let cb = calculateConstructionBounds b 10
                         in s1\<lparr>constructionBounds := Some cb,
                               panelBounds := Some (calculatePanelBounds cb 40)\<rparr>))
              else s1))"



section \<open>Moving the selection\<close>

text \<open>
  How a call ends: it returns, it returns after the warning that the move is refused, or
  it throws the \<open>TypeError\<close> of reading a property of \<open>undefined\<close> (an index
  past the end of its collection). The state is returned in every case, since what was
  mutated before an exception stays mutated.
\<close>

datatype outcome = Completed | Rejected | TypeError

text \<open>The callback of \<open>selectedElements.every\<close>; \<open>None\<close> when it throws.\<close>

fun canMoveEntry :: "editor2d \<Rightarrow> real \<Rightarrow> real \<Rightarrow> selection_entry \<Rightarrow> bool option" where
  "canMoveEntry s dx dy (PanelT, i) =
     (if i < length (panels s) then
        (let p = panels s ! i
         in Some (isRectWithinPanelBounds s
                    \<lparr>r_x = p_x p + dx, r_y = p_y p + dy, r_w = p_w p, r_h = p_h p\<rparr>))
      else None)"
| "canMoveEntry s dx dy (ObstacleT, i) = Some True"
| "canMoveEntry s dx dy (BeamT, i) =
     (if i < length (beams s) then
        (let b = beams s ! i
         in Some (isLineWithinConstructionBounds s
                    (b_x1 b + dx) (b_y1 b + dy) (b_x2 b + dx) (b_y2 b + dy)))
      else None)"
| "canMoveEntry s dx dy (TextT, i) = Some True"

text \<open>\<open>Array.prototype.every\<close>: stops at the first entry that fails.\<close>

fun everyCanMove :: "editor2d \<Rightarrow> real \<Rightarrow> real \<Rightarrow> selection_entry list \<Rightarrow> bool option" where
  "everyCanMove s dx dy [] = Some True"
| "everyCanMove s dx dy (e # es) =
     (case canMoveEntry s dx dy e of
        None \<Rightarrow> None
      | Some ok \<Rightarrow> if ok then everyCanMove s dx dy es else Some False)"

text \<open>One round of the mutating loop; \<open>None\<close> when the element is \<open>undefined\<close>.\<close>

fun moveEntry :: "real \<Rightarrow> real \<Rightarrow> selection_entry \<Rightarrow> editor2d \<Rightarrow> editor2d option" where
  "moveEntry dx dy (PanelT, i) s =
     (if i < length (panels s) then
        (let p = panels s ! i
         in Some (s\<lparr>panels := (panels s)[i := p\<lparr>p_x := p_x p + dx, p_y := p_y p + dy\<rparr>]\<rparr>))
      else None)"
| "moveEntry dx dy (ObstacleT, i) s =
     (if i < length (obstacles s) then
        (let ob = obstacles s ! i
         in Some (s\<lparr>obstacles := (obstacles s)[i := ob\<lparr>o_x := o_x ob + dx, o_y := o_y ob + dy\<rparr>]\<rparr>))
      else None)"
| "moveEntry dx dy (BeamT, i) s =
     (if i < length (beams s) then
        (let b = beams s ! i
         in Some (s\<lparr>beams := (beams s)[i := b\<lparr>b_x1 := b_x1 b + dx, b_y1 := b_y1 b + dy,
                                                 b_x2 := b_x2 b + dx, b_y2 := b_y2 b + dy\<rparr>]\<rparr>))
      else None)"
| "moveEntry dx dy (TextT, i) s =
     (if i < length (texts s) then
        (let t = texts s ! i
         in Some (s\<lparr>texts := (texts s)[i := t\<lparr>t_x := t_x t + dx, t_y := t_y t + dy\<rparr>]\<rparr>))
      else None)"

fun moveLoop :: "real \<Rightarrow> real \<Rightarrow> selection_entry list \<Rightarrow> editor2d \<Rightarrow> outcome \<times> editor2d" where
  "moveLoop dx dy [] s = (Completed, s)"
| "moveLoop dx dy (e # es) s =
     (case moveEntry dx dy e s of
        None \<Rightarrow> (TypeError, s)
      | Some s' \<Rightarrow> moveLoop dx dy es s')"

text \<open>\<open>_moveSelected\<close>: the validation runs only when the construction bounds are set.\<close>

definition moveSelected :: "real \<Rightarrow> real \<Rightarrow> editor2d \<Rightarrow> outcome \<times> editor2d" where
  "moveSelected dx dy s =
     (if selectedElements s = [] then (Completed, s)
      else if constructionBounds s \<noteq> None then
        (case everyCanMove s dx dy (selectedElements s) of
           None \<Rightarrow> (TypeError, s)
         | Some canMove \<Rightarrow>
             if canMove then moveLoop dx dy (selectedElements s) s else (Rejected, s))
      else moveLoop dx dy (selectedElements s) s)"

subsection \<open>What a move is meant to do\<close>

text \<open>A selection entry refers to an element of its collection.\<close>

fun entry_in_range :: "editor2d \<Rightarrow> selection_entry \<Rightarrow> bool" where
  "entry_in_range s (PanelT, i) = (i < length (panels s))"
| "entry_in_range s (ObstacleT, i) = (i < length (obstacles s))"
| "entry_in_range s (BeamT, i) = (i < length (beams s))"
| "entry_in_range s (TextT, i) = (i < length (texts s))"

text \<open>
  The position an entry would have after the displacement violates the bound that applies
  to it: the panel bounds for a panel, the construction bounds for a beam, none for an
  obstacle or a text.
\<close>

fun violates_bound :: "editor2d \<Rightarrow> real \<Rightarrow> real \<Rightarrow> selection_entry \<Rightarrow> bool" where
  "violates_bound s dx dy (PanelT, i) =
     (\<not> isRectWithinPanelBounds s
          \<lparr>r_x = p_x (panels s ! i) + dx, r_y = p_y (panels s ! i) + dy,
           r_w = p_w (panels s ! i), r_h = p_h (panels s ! i)\<rparr>)"
| "violates_bound s dx dy (ObstacleT, i) = False"
| "violates_bound s dx dy (BeamT, i) =
     (\<not> isLineWithinConstructionBounds s
          (b_x1 (beams s ! i) + dx) (b_y1 (beams s ! i) + dy)
          (b_x2 (beams s ! i) + dx) (b_y2 (beams s ! i) + dy))"
| "violates_bound s dx dy (TextT, i) = False"

definition translate_panel :: "real \<Rightarrow> real \<Rightarrow> panel \<Rightarrow> panel" where
  "translate_panel dx dy p = p\<lparr>p_x := p_x p + dx, p_y := p_y p + dy\<rparr>"

definition translate_obstacle :: "real \<Rightarrow> real \<Rightarrow> obstacle \<Rightarrow> obstacle" where
  "translate_obstacle dx dy ob = ob\<lparr>o_x := o_x ob + dx, o_y := o_y ob + dy\<rparr>"

definition translate_beam :: "real \<Rightarrow> real \<Rightarrow> beam \<Rightarrow> beam" where
  "translate_beam dx dy b =
     b\<lparr>b_x1 := b_x1 b + dx, b_y1 := b_y1 b + dy, b_x2 := b_x2 b + dx, b_y2 := b_y2 b + dy\<rparr>"

definition translate_text :: "real \<Rightarrow> real \<Rightarrow> text_item \<Rightarrow> text_item" where
  "translate_text dx dy t = t\<lparr>t_x := t_x t + dx, t_y := t_y t + dy\<rparr>"

text \<open>Apply \<open>f i\<close> to the elements whose index is marked, leave the others.\<close>

definition map_marked :: "(nat \<Rightarrow> bool) \<Rightarrow> ('a \<Rightarrow> 'a) \<Rightarrow> 'a list \<Rightarrow> 'a list" where
  "map_marked mark f xs = map (\<lambda>i. if mark i then f (xs ! i) else xs ! i) [0..<length xs]"

text \<open>
  The state in which exactly the elements marked by \<open>S\<close> are translated by
  \<open>(dx, dy)\<close> and nothing else differs.
\<close>

definition move_marked :: "selection_entry set \<Rightarrow> real \<Rightarrow> real \<Rightarrow> editor2d \<Rightarrow> editor2d" where
  "move_marked S dx dy s =
     s\<lparr>panels := map_marked (\<lambda>i. (PanelT, i) \<in> S) (translate_panel dx dy) (panels s),
       obstacles := map_marked (\<lambda>i. (ObstacleT, i) \<in> S) (translate_obstacle dx dy) (obstacles s),
       beams := map_marked (\<lambda>i. (BeamT, i) \<in> S) (translate_beam dx dy) (beams s),
       texts := map_marked (\<lambda>i. (TextT, i) \<in> S) (translate_text dx dy) (texts s)\<rparr>"

definition translate_selected :: "real \<Rightarrow> real \<Rightarrow> editor2d \<Rightarrow> editor2d" where
  "translate_selected dx dy s = move_marked (set (selectedElements s)) dx dy s"

text \<open>
  A layout to run the move on: the 585 by 388 rectangular terrace with one panel and one
  beam, both selected.
\<close>

definition example_layout :: editor2d where
  "example_layout =
     (setRectangularTerrace 585 388 (newEditor2D None))
       \<lparr>panels := [\<lparr>p_x = 0, p_y = 0, p_w = 114, p_h = 228, p_realHeight = Some 228,
                    p_inclination = 0, p_power = 610\<rparr>],
        beams := [\<lparr>b_x1 = 0, b_y1 = 0, b_x2 = 100, b_y2 = 0, b_profile = ''IPN-80'',
                   b_isAutoStructure = False\<rparr>],
        selectedElements := [(PanelT, 0), (BeamT, 0)]\<rparr>"

text \<open>
  A state without terrace whose record carried panel bounds only: importing it leaves the
  construction bounds unset (fewer than three vertices, nothing is recomputed). Its one
  panel is then selected.
\<close>

definition panel_bounds_only :: editor2d where
  "panel_bounds_only =
     (importData
        (Some \<lparr>d_terraceVertices = None, d_constructionBounds = None,
               d_panelBounds = Some \<lparr>minX = 0, maxX = 100, minY = 0, maxY = 100\<rparr>,
               d_obstacles = None, d_beams = None,
               d_panels = Some [\<lparr>p_x = 0, p_y = 0, p_w = 10, p_h = 10, p_realHeight = Some 10,
                                 p_inclination = 0, p_power = 610\<rparr>],
               d_texts = None, d_panelConfig = None, d_textConfig = None, d_scale = None\<rparr>)
        (newEditor2D None))
       \<lparr>selectedElements := [(PanelT, 0)]\<rparr>"

section \<open>Area selection of beams\<close>

text \<open>\<open>_linesIntersect\<close>: the parametric test on the two supporting lines.\<close>

definition linesIntersect ::
  "real \<Rightarrow> real \<Rightarrow> real \<Rightarrow> real \<Rightarrow> real \<Rightarrow> real \<Rightarrow> real \<Rightarrow> real \<Rightarrow> bool" where
  "linesIntersect x1 y1 x2 y2 x3 y3 x4 y4 =
     (let denom = (x1 - x2) * (y3 - y4) - (y1 - y2) * (x3 - x4)
      in if denom = 0 then False
         else
           (let t = ((x1 - x3) * (y3 - y4) - (y1 - y3) * (x3 - x4)) / denom;
                u = - ((x1 - x2) * (y1 - y3) - (y1 - y2) * (x1 - x3)) / denom
            in t \<ge> 0 \<and> t \<le> 1 \<and> u \<ge> 0 \<and> u \<le> 1))"

text \<open>\<open>_lineIntersectsRect\<close>: the segment against the four edges, in order.\<close>

definition lineIntersectsRect :: "real \<Rightarrow> real \<Rightarrow> real \<Rightarrow> real \<Rightarrow> rect \<Rightarrow> bool" where
  "lineIntersectsRect x1 y1 x2 y2 rc =
     (let lines = [(r_x rc, r_y rc, r_x rc + r_w rc, r_y rc),
                   (r_x rc + r_w rc, r_y rc, r_x rc + r_w rc, r_y rc + r_h rc),
                   (r_x rc + r_w rc, r_y rc + r_h rc, r_x rc, r_y rc + r_h rc),
                   (r_x rc, r_y rc + r_h rc, r_x rc, r_y rc)]
      in list_ex (\<lambda>(rx1, ry1, rx2, ry2). linesIntersect x1 y1 x2 y2 rx1 ry1 rx2 ry2) lines)"

text \<open>
  The part of \<open>_finishAreaSelect\<close> that collects the beams: the dragged rectangle is
  normalised, then every beam that \<open>_lineIntersectsRect\<close> accepts is selected.
\<close>

definition areaSelectBeams :: "editor2d \<Rightarrow> rect \<Rightarrow> selection_entry list" where
  "areaSelectBeams s selectionRect =
     (let rect0 = selectionRect;
          rect1 = (if r_w rect0 < 0
                   then rect0\<lparr>r_x := r_x rect0 + r_w rect0, r_w := \<bar>r_w rect0\<bar>\<rparr> else rect0);
          rect2 = (if r_h rect1 < 0
                   then rect1\<lparr>r_y := r_y rect1 + r_h rect1, r_h := \<bar>r_h rect1\<bar>\<rparr> else rect1)
      in map (\<lambda>i. (BeamT, i))
           (filter (\<lambda>i. lineIntersectsRect (b_x1 (beams s ! i)) (b_y1 (beams s ! i))
                            (b_x2 (beams s ! i)) (b_y2 (beams s ! i)) rect2)
              [0..<length (beams s)]))"

subsection \<open>What an intersection test is meant to find\<close>

text \<open>A point lies on a segment; two segments share a point.\<close>

definition point_on_segment :: "real \<Rightarrow> real \<Rightarrow> real \<Rightarrow> real \<Rightarrow> real \<Rightarrow> real \<Rightarrow> bool" where
  "point_on_segment px py x1 y1 x2 y2 =
     (\<exists>t. 0 \<le> t \<and> t \<le> 1 \<and> px = x1 + t * (x2 - x1) \<and> py = y1 + t * (y2 - y1))"

definition segments_share_point ::
  "real \<Rightarrow> real \<Rightarrow> real \<Rightarrow> real \<Rightarrow> real \<Rightarrow> real \<Rightarrow> real \<Rightarrow> real \<Rightarrow> bool" where
  "segments_share_point x1 y1 x2 y2 x3 y3 x4 y4 =
     (\<exists>px py. point_on_segment px py x1 y1 x2 y2 \<and> point_on_segment px py x3 y3 x4 y4)"

text \<open>A layout with one beam from (6, 0) to (9, 0).\<close>

definition edge_beam_layout :: editor2d where
  "edge_beam_layout =
     (newEditor2D None)
       \<lparr>beams := [\<lparr>b_x1 = 6, b_y1 = 0, b_x2 = 9, b_y2 = 0, b_profile = ''IPN-80'',
                   b_isAutoStructure = False\<rparr>]\<rparr>"

section \<open>Automatic structure\<close>

text \<open>
  The result object \<open>{success, message, structure}\<close>. The message is a template
  string; it is modelled by the values it interpolates: the failure message by the beam
  count, the spacing, the required length and the available length, the success message
  by the structure's width and length and the beam count.
\<close>

datatype auto_message =
    NoTerrace
  | TooLong int real real real
  | Created real real int

record structure_size =
  st_width :: real
  st_length :: real

record auto_result =
  res_success :: bool
  res_message :: auto_message
  res_structure :: "structure_size option"

text \<open>\<open>width || 585\<close>: a missing or zero argument is falsy. The optional arguments
  \<open>width\<close> and \<open>height\<close> are \<open>optWidth\<close> and \<open>optHeight\<close> below.\<close>

definition or_number :: "real option \<Rightarrow> real \<Rightarrow> real" where
  "or_number v d = (case v of None \<Rightarrow> d | Some a \<Rightarrow> if a = 0 then d else a)"

definition pushBeam :: "string \<Rightarrow> real \<Rightarrow> real \<Rightarrow> real \<Rightarrow> real \<Rightarrow> beam list \<Rightarrow> beam list" where
  "pushBeam profile x1 y1 x2 y2 bs =
     bs @ [\<lparr>b_x1 = x1, b_y1 = y1, b_x2 = x2, b_y2 = y2, b_profile = profile,
            b_isAutoStructure = True\<rparr>]"

text \<open>
  The loop over the parallel beams, from counter \<open>i\<close>: it stops at \<open>numBeams\<close> or
  at the first position that reaches the far edge.
\<close>

function parallelLoop ::
  "int \<Rightarrow> int \<Rightarrow> real \<Rightarrow> string \<Rightarrow> real \<Rightarrow> real \<Rightarrow> real \<Rightarrow> real \<Rightarrow> beam list \<Rightarrow> beam list" where
  "parallelLoop i numBeams spacing profile startX startY endX endY bs =
     (if i < numBeams then
        (let y = startY + (of_int (i + 1)) * spacing
         in if y \<ge> endY then bs
            else parallelLoop (i + 1) numBeams spacing profile startX startY endX endY
                   (pushBeam profile startX y endX y bs))
      else bs)"
  by pat_completeness auto
termination
  by (relation "measure (\<lambda>(i, numBeams, _). nat (numBeams - i))") auto

definition createAutoStructure ::
  "int \<Rightarrow> real \<Rightarrow> string \<Rightarrow> real option \<Rightarrow> real option \<Rightarrow> editor2d \<Rightarrow> auto_result \<times> editor2d" where
  "createAutoStructure numBeams spacing profile optWidth optHeight s =
     (let s1 = (if getTerraceBounds (terraceVertices s) = None
                then setRectangularTerrace (or_number optWidth 585) (or_number optHeight 388) s
                else s)
      in case getTerraceBounds (terraceVertices s1) of
           None \<Rightarrow>
             (\<lparr>res_success = False, res_message = NoTerrace, res_structure = None\<rparr>, s1)
         | Some terraceBounds \<Rightarrow>
             (let s2 = (if constructionBounds s1 = None
                        then s1\<lparr>constructionBounds :=
                                  Some (calculateConstructionBounds terraceBounds 10)\<rparr>
                        else s1);
                  s3 = (if panelBounds s2 = None
                        then s2\<lparr>panelBounds :=
                                  map_option (\<lambda>cb. calculatePanelBounds cb 40)
                                    (constructionBounds s2)\<rparr>
                        else s2);
                  margin = 5;
                  structureWidth = max 50 (width terraceBounds - 2 * margin);
                  structureLength = max 50 (height terraceBounds - 2 * margin);
                  finalWidth = structureWidth;
                  finalLength = structureLength;
                  totalBeamLength = of_int numBeams * spacing
              in if numBeams > 0 \<and> totalBeamLength \<ge> finalLength then
                   (\<lparr>res_success = False,
                     res_message = TooLong numBeams spacing totalBeamLength finalLength,
                     res_structure = Some \<lparr>st_width = finalWidth, st_length = finalLength\<rparr>\<rparr>,
                    s3)
                 else
                   (let centerX = (minX terraceBounds + maxX terraceBounds) / 2;
                        centerY = (minY terraceBounds + maxY terraceBounds) / 2;
                        startX = centerX - finalWidth / 2;
                        startY = centerY - finalLength / 2;
                        endX = startX + finalWidth;
                        endY = startY + finalLength;
                        frame = pushBeam profile startX endY startX startY
                                  (pushBeam profile endX endY startX endY
                                    (pushBeam profile endX startY endX endY
                                      (pushBeam profile startX startY endX startY [])));
                        all = parallelLoop 0 numBeams spacing profile startX startY endX endY frame
                    in (\<lparr>res_success = True,
                         res_message = Created finalWidth finalLength numBeams,
                         res_structure = Some \<lparr>st_width = finalWidth, st_length = finalLength\<rparr>\<rparr>,
                        s3\<lparr>beams := all\<rparr>))))"

subsection \<open>What the automatic structure is meant to be\<close>










section \<open>The 3D viewer: inclination profile\<close>

text \<open>
  The viewer receives the exported beams and panels and the structure configuration. Its
  own state that matters here is \<open>terraceCenter\<close>, set by
  \<open>_calculateTerraceCenter\<close> before anything is built; the functions below take
  it as their first argument \<open>tc\<close>.
\<close>

definition calculateTerraceCenter :: "vertex list \<Rightarrow> vertex" where
  "calculateTerraceCenter vs =
     (if length vs < 3 then \<lparr>v_x = 0, v_y = 0\<rparr>
      else (case (fold (\<lambda>v a. js_min a (v_x v)) vs None,
                  fold (\<lambda>v a. js_max a (v_x v)) vs None,
                  fold (\<lambda>v a. js_min a (v_y v)) vs None,
                  fold (\<lambda>v a. js_max a (v_y v)) vs None) of
              (Some mnx, Some mxx, Some mny, Some mxy) \<Rightarrow>
                 \<lparr>v_x = (mnx + mxx) / 2, v_y = (mny + mxy) / 2\<rparr>
            | _ \<Rightarrow> \<lparr>v_x = 0, v_y = 0\<rparr>))"

text \<open>
  The inclination request \<open>{degrees, startBeam, endBeam}\<close>. The indices are integers
  (the controller reads them with \<open>parseInt\<close>), so \<open>Number.isFinite(startBeam)\<close>
  holds; \<open>endBeam = -1\<close> stands for the last beam.
\<close>

record inclination =
  degrees :: real
  startBeam :: int
  endBeam :: int

record range_info =
  startIndex :: int
  endIndex :: int
  minZ :: real
  maxZ :: real
  invert :: bool

text \<open>\<open>beams[i]\<close> for an integer \<open>i\<close>: \<open>undefined\<close> outside the array.\<close>

definition js_index :: "'a list \<Rightarrow> int \<Rightarrow> 'a option" where
  "js_index xs i = (if 0 \<le> i \<and> i < int (length xs) then Some (xs ! nat i) else None)"

text \<open>One round of the loop of the \<open>endBeam = -1\<close> branch, on the pair of accumulators.\<close>

definition rangeStep ::
  "vertex \<Rightarrow> beam list \<Rightarrow> int \<Rightarrow> real option \<times> real option \<Rightarrow> real option \<times> real option" where
  "rangeStep tc bs i acc =
     (case js_index bs i of
        None \<Rightarrow> acc
      | Some b \<Rightarrow>
          (js_min (js_min (fst acc) (b_y1 b - v_y tc)) (b_y2 b - v_y tc),
           js_max (js_max (snd acc) (b_y1 b - v_y tc)) (b_y2 b - v_y tc)))"

definition getInclinationRange :: "vertex \<Rightarrow> beam list \<Rightarrow> inclination \<Rightarrow> range_info option" where
  "getInclinationRange tc bs incl =
     (if bs = [] then None
      else
        (let totalBeams = int (length bs);
             rawStart = startBeam incl;
             rawEnd = (if endBeam incl = -1 then totalBeams - 1 else endBeam incl);
             startIndex' = max 0 (min rawStart (totalBeams - 1));
             endIndex' = max 0 (min rawEnd (totalBeams - 1));
             rangeStart = min startIndex' endIndex';
             rangeEnd = max startIndex' endIndex';
             extent =
               (if endBeam incl = -1 then
                  Some (fold (rangeStep tc bs) [rangeStart..rangeEnd] (None, None))
                else
                  (case (js_index bs startIndex', js_index bs endIndex') of
                     (Some sb, Some eb) \<Rightarrow>
                        Some (Some (min (min (min (b_y1 sb - v_y tc) (b_y2 sb - v_y tc))
                                              (b_y1 eb - v_y tc)) (b_y2 eb - v_y tc)),
                              Some (max (max (max (b_y1 sb - v_y tc) (b_y2 sb - v_y tc))
                                              (b_y1 eb - v_y tc)) (b_y2 eb - v_y tc)))
                   | _ \<Rightarrow> None))
         in case extent of
              Some (Some mn, Some mx) \<Rightarrow>
                Some \<lparr>startIndex = rangeStart, endIndex = rangeEnd, minZ = mn, maxZ = mx,
                      invert = (endIndex' < startIndex')\<rparr>
            | _ \<Rightarrow> None))"

text \<open>\<open>_getStructureBounds\<close>: the box of the beams' endpoints, else of the terrace.\<close>

record structure_bounds =
  sb_minX :: real
  sb_maxX :: real
  sb_minZ :: real
  sb_maxZ :: real

type_synonym box_acc = "real option \<times> real option \<times> real option \<times> real option"

definition applyPoint :: "real \<Rightarrow> real \<Rightarrow> box_acc \<Rightarrow> box_acc" where
  "applyPoint x z acc =
     (case acc of (mnx, mxx, mnz, mxz) \<Rightarrow> (js_min mnx x, js_max mxx x, js_min mnz z, js_max mxz z))"

definition getStructureBounds :: "vertex \<Rightarrow> beam list \<Rightarrow> vertex list \<Rightarrow> structure_bounds option" where
  "getStructureBounds tc bs terraceVs =
     (let acc =
        (if length bs > 0 then
           fold (\<lambda>b a. applyPoint (b_x2 b - v_x tc) (b_y2 b - v_y tc)
                          (applyPoint (b_x1 b - v_x tc) (b_y1 b - v_y tc) a))
             bs (None, None, None, None)
         else if length terraceVs > 0 then
           fold (\<lambda>v a. applyPoint (v_x v - v_x tc) (v_y v - v_y tc) a)
             terraceVs (None, None, None, None)
         else (None, None, None, None))
      in case acc of
           (Some mnx, Some mxx, Some mnz, Some mxz) \<Rightarrow>
              Some \<lparr>sb_minX = mnx, sb_maxX = mxx, sb_minZ = mnz, sb_maxZ = mxz\<rparr>
         | _ \<Rightarrow> None)"

subsection \<open>Per-beam inclinations\<close>

record beam_inclination =
  radians :: real
  hasFullInclination :: bool

definition pointsEqual :: "vertex \<Rightarrow> vertex \<Rightarrow> real \<Rightarrow> bool" where
  "pointsEqual p1 p2 tolerance =
     (\<bar>v_x p1 - v_x p2\<bar> \<le> tolerance \<and> \<bar>v_y p1 - v_y p2\<bar> \<le> tolerance)"

definition beamsConnected :: "beam \<Rightarrow> beam \<Rightarrow> bool" where
  "beamsConnected b1 b2 =
     (pointsEqual \<lparr>v_x = b_x1 b1, v_y = b_y1 b1\<rparr> \<lparr>v_x = b_x1 b2, v_y = b_y1 b2\<rparr> 1 \<or>
      pointsEqual \<lparr>v_x = b_x1 b1, v_y = b_y1 b1\<rparr> \<lparr>v_x = b_x2 b2, v_y = b_y2 b2\<rparr> 1 \<or>
      pointsEqual \<lparr>v_x = b_x2 b1, v_y = b_y2 b1\<rparr> \<lparr>v_x = b_x1 b2, v_y = b_y1 b2\<rparr> 1 \<or>
      pointsEqual \<lparr>v_x = b_x2 b1, v_y = b_y2 b1\<rparr> \<lparr>v_x = b_x2 b2, v_y = b_y2 b2\<rparr> 1)"

text \<open>
  \<open>Math.abs(v - m) <= tolerance\<close> for an extremum \<open>m\<close> of the beams; an extremum
  still infinite is at infinite distance.
\<close>

definition near_extreme :: "real \<Rightarrow> real option \<Rightarrow> real \<Rightarrow> bool" where
  "near_extreme v m tolerance = (case m of None \<Rightarrow> False | Some e \<Rightarrow> \<bar>v - e\<bar> \<le> tolerance)"

definition isFrameBeam ::
  "real option \<Rightarrow> real option \<Rightarrow> real option \<Rightarrow> real option \<Rightarrow> beam \<Rightarrow> real \<Rightarrow> bool" where
  "isFrameBeam mnX mxX mnY mxY b tolerance =
     (let isHorizontal = (\<bar>b_y1 b - b_y2 b\<bar> \<le> tolerance \<and>
                          (near_extreme (b_y1 b) mnY tolerance \<or> near_extreme (b_y1 b) mxY tolerance));
          isVertical = (\<bar>b_x1 b - b_x2 b\<bar> \<le> tolerance \<and>
                        (near_extreme (b_x1 b) mnX tolerance \<or> near_extreme (b_x1 b) mxX tolerance))
      in isHorizontal \<or> isVertical)"

text \<open>The indices of the beams in the main range, in the order they are added to the set.\<close>

definition rangeIndices :: "vertex \<Rightarrow> beam list \<Rightarrow> range_info option \<Rightarrow> nat list" where
  "rangeIndices tc bs rangeInfo =
     (case rangeInfo of
        None \<Rightarrow> []
      | Some r \<Rightarrow>
          (let mnZ = min (minZ r) (maxZ r);
               mxZ = max (minZ r) (maxZ r);
               tolerance = 0.5
           in filter (\<lambda>i. let b = bs ! i;
                              centerZ = ((b_y1 b + b_y2 b) / 2) - v_y tc
                          in centerZ \<ge> mnZ - tolerance \<and> centerZ \<le> mxZ + tolerance)
                [0..<length bs]))"

definition calculateBeamInclinations ::
  "vertex \<Rightarrow> beam list \<Rightarrow> inclination \<Rightarrow> beam_inclination list" where
  "calculateBeamInclinations tc bs incl =
     (if bs = [] then []
      else
        (let rangeInfo = getInclinationRange tc bs incl;
             baseRadians = (degrees incl * pi) / 180;
             mnX = fold (\<lambda>b a. js_min (js_min a (b_x1 b)) (b_x2 b)) bs None;
             mxX = fold (\<lambda>b a. js_max (js_max a (b_x1 b)) (b_x2 b)) bs None;
             mnY = fold (\<lambda>b a. js_min (js_min a (b_y1 b)) (b_y2 b)) bs None;
             mxY = fold (\<lambda>b a. js_max (js_max a (b_y1 b)) (b_y2 b)) bs None;
             inRange = rangeIndices tc bs rangeInfo
         in map (\<lambda>i.
                  if i \<in> set inRange then
                    \<lparr>radians = baseRadians, hasFullInclination = True\<rparr>
                  else
                    (case find (\<lambda>j. j < length bs \<and> beamsConnected (bs ! i) (bs ! j)) inRange of
                       Some j \<Rightarrow>
                         if isFrameBeam mnX mxX mnY mxY (bs ! i) 1 then
                           \<lparr>radians = baseRadians, hasFullInclination = True\<rparr>
                         else
                           \<lparr>radians = baseRadians * 0.25, hasFullInclination = False\<rparr>
                     | None \<Rightarrow> \<lparr>radians = 0, hasFullInclination = False\<rparr>))
              [0..<length bs]))"

subsection \<open>Height along the depth axis\<close>

text \<open>
  \<open>getHeightAtZ\<close> is defined twice, as a closure inside \<open>_buildBeams\<close> and as a
  closure inside \<open>_buildPanels\<close>; each captures the values its builder computes from
  the beams, the base height and the request. The two are modelled one by one.
\<close>

definition getHeightAtZ_buildBeams ::
  "vertex \<Rightarrow> beam list \<Rightarrow> real \<Rightarrow> inclination \<Rightarrow> real \<Rightarrow> real \<Rightarrow> real" where
  "getHeightAtZ_buildBeams tc bs height' incl z rad =
     (let bounds' = getStructureBounds tc bs [];
          rangeInfo = getInclinationRange tc bs incl;
          zMin = (case rangeInfo of
                    Some r \<Rightarrow> minZ r
                  | None \<Rightarrow> (case bounds' of Some b \<Rightarrow> sb_minZ b | None \<Rightarrow> 0));
          zMax = (case rangeInfo of
                    Some r \<Rightarrow> maxZ r
                  | None \<Rightarrow> (case bounds' of Some b \<Rightarrow> sb_maxZ b | None \<Rightarrow> 0));
          zSpan = zMax - zMin
      in if bounds' = None \<or> zSpan = 0 \<or> rad = 0 then height'
         else
           (let rise = zSpan * tan rad;
                t = (z - zMin) / zSpan;
                t1 = (if (case rangeInfo of Some r \<Rightarrow> invert r | None \<Rightarrow> False)
                      then 1 - t else t);
                t2 = max 0 (min 1 t1)
            in height' + rise * t2))"

definition getHeightAtZ_buildPanels ::
  "vertex \<Rightarrow> beam list \<Rightarrow> real \<Rightarrow> inclination \<Rightarrow> real \<Rightarrow> real \<Rightarrow> real" where
  "getHeightAtZ_buildPanels tc bs height' incl z rad =
     (let bounds' = getStructureBounds tc bs [];
          rangeInfo = getInclinationRange tc bs incl;
          zMin = (case rangeInfo of
                    Some r \<Rightarrow> minZ r
                  | None \<Rightarrow> (case bounds' of Some b \<Rightarrow> sb_minZ b | None \<Rightarrow> 0));
          zMax = (case rangeInfo of
                    Some r \<Rightarrow> maxZ r
                  | None \<Rightarrow> (case bounds' of Some b \<Rightarrow> sb_maxZ b | None \<Rightarrow> 0));
          zSpan = zMax - zMin
      in if bounds' = None \<or> zSpan = 0 \<or> rad = 0 then height'
         else
           (let rise = zSpan * tan rad;
                t = (z - zMin) / zSpan;
                t1 = (if (case rangeInfo of Some r \<Rightarrow> invert r | None \<Rightarrow> False)
                      then 1 - t else t);
                t2 = max 0 (min 1 t1)
            in height' + rise * t2))"

subsection \<open>What the resolved range is meant to be\<close>

text \<open>The request's indices clamped into the beams' index range.\<close>

definition clampedStart :: "beam list \<Rightarrow> inclination \<Rightarrow> int" where
  "clampedStart bs incl = max 0 (min (startBeam incl) (int (length bs) - 1))"

definition clampedEnd :: "beam list \<Rightarrow> inclination \<Rightarrow> int" where
  "clampedEnd bs incl =
     max 0 (min (if endBeam incl = -1 then int (length bs) - 1 else endBeam incl)
                (int (length bs) - 1))"

text \<open>The depth coordinates of the endpoints of a list of beams.\<close>

definition endpoint_depths :: "vertex \<Rightarrow> beam list \<Rightarrow> real list" where
  "endpoint_depths tc bs = concat (map (\<lambda>b. [b_y1 b - v_y tc, b_y2 b - v_y tc]) bs)"

text \<open>The accumulators after one more beam.\<close>

definition beamStep :: "vertex \<Rightarrow> beam \<Rightarrow> real option \<times> real option \<Rightarrow> real option \<times> real option" where
  "beamStep tc b acc =
     (js_min (js_min (fst acc) (b_y1 b - v_y tc)) (b_y2 b - v_y tc),
      js_max (js_max (snd acc) (b_y1 b - v_y tc)) (b_y2 b - v_y tc))"

text \<open>Three beams across, at depths 0, 100 and 200.\<close>

definition three_beams :: "beam list" where
  "three_beams =
     [\<lparr>b_x1 = 0, b_y1 = 0, b_x2 = 500, b_y2 = 0, b_profile = ''IPN-80'', b_isAutoStructure = False\<rparr>,
      \<lparr>b_x1 = 0, b_y1 = 100, b_x2 = 500, b_y2 = 100, b_profile = ''IPN-80'', b_isAutoStructure = False\<rparr>,
      \<lparr>b_x1 = 0, b_y1 = 200, b_x2 = 500, b_y2 = 200, b_profile = ''IPN-80'', b_isAutoStructure = False\<rparr>]"

subsection \<open>What the height profile is meant to be\<close>

text \<open>
  The profile of a request over a beam collection: the least depth, the span and the
  direction, taken from the resolved range and, without one, from the structure's box.
\<close>

definition profileMin :: "vertex \<Rightarrow> beam list \<Rightarrow> inclination \<Rightarrow> real" where
  "profileMin tc bs incl =
     (case getInclinationRange tc bs incl of
        Some r \<Rightarrow> minZ r
      | None \<Rightarrow> (case getStructureBounds tc bs [] of Some b \<Rightarrow> sb_minZ b | None \<Rightarrow> 0))"

definition profileMax :: "vertex \<Rightarrow> beam list \<Rightarrow> inclination \<Rightarrow> real" where
  "profileMax tc bs incl =
     (case getInclinationRange tc bs incl of
        Some r \<Rightarrow> maxZ r
      | None \<Rightarrow> (case getStructureBounds tc bs [] of Some b \<Rightarrow> sb_maxZ b | None \<Rightarrow> 0))"

definition profileInverted :: "vertex \<Rightarrow> beam list \<Rightarrow> inclination \<Rightarrow> bool" where
  "profileInverted tc bs incl =
     (case getInclinationRange tc bs incl of Some r \<Rightarrow> invert r | None \<Rightarrow> False)"

text \<open>
  The specification's \<open>heightAt\<close>: the flat base height for a degenerate span or a
  zero tilt; otherwise \<open>base + span * tan tilt * t\<close> with
  \<open>t = (depth - minDepth) / span\<close> clamped to \<open>[0, 1]\<close> and flipped to \<open>1 - t\<close>
  when the profile is inverted.
\<close>

definition heightAt :: "real \<Rightarrow> real \<Rightarrow> real \<Rightarrow> bool \<Rightarrow> real \<Rightarrow> real \<Rightarrow> real" where
  "heightAt base minDepth spanDepth inverted depth tilt =
     (if spanDepth = 0 \<or> tilt = 0 then base
      else (let t = max 0 (min 1 ((depth - minDepth) / spanDepth))
            in base + spanDepth * tan tilt * (if inverted then 1 - t else t)))"

subsection \<open>What the per-beam inclinations are meant to be\<close>

definition beam_xs :: "beam list \<Rightarrow> real list" where
  "beam_xs bs = concat (map (\<lambda>b. [b_x1 b, b_x2 b]) bs)"

definition beam_ys :: "beam list \<Rightarrow> real list" where
  "beam_ys bs = concat (map (\<lambda>b. [b_y1 b, b_y2 b]) bs)"

text \<open>
  The centerline depth of a beam lies in the resolved depth range, with a tolerance of
  half a unit.
\<close>

definition centerline_in_range :: "vertex \<Rightarrow> beam list \<Rightarrow> inclination \<Rightarrow> beam \<Rightarrow> bool" where
  "centerline_in_range tc bs incl b =
     (case getInclinationRange tc bs incl of
        None \<Rightarrow> False
      | Some r \<Rightarrow> minZ r - 0.5 \<le> (b_y1 b + b_y2 b) / 2 - v_y tc \<and>
                  (b_y1 b + b_y2 b) / 2 - v_y tc \<le> maxZ r + 0.5)"

text \<open>
  A frame beam: axis-aligned (within one unit) and at one of the bounding extremes of all
  the beams (within one unit).
\<close>

definition frame_beam :: "beam list \<Rightarrow> beam \<Rightarrow> bool" where
  "frame_beam bs b =
     ((\<bar>b_y1 b - b_y2 b\<bar> \<le> 1 \<and>
       (\<bar>b_y1 b - Min (set (beam_ys bs))\<bar> \<le> 1 \<or> \<bar>b_y1 b - Max (set (beam_ys bs))\<bar> \<le> 1)) \<or>
      (\<bar>b_x1 b - b_x2 b\<bar> \<le> 1 \<and>
       (\<bar>b_x1 b - Min (set (beam_xs bs))\<bar> \<le> 1 \<or> \<bar>b_x1 b - Max (set (beam_xs bs))\<bar> \<le> 1)))"

text \<open>Some beam in range shares an endpoint with the beam.\<close>

definition connected_to_range :: "vertex \<Rightarrow> beam list \<Rightarrow> inclination \<Rightarrow> beam \<Rightarrow> bool" where
  "connected_to_range tc bs incl b =
     list_ex (\<lambda>c. centerline_in_range tc bs incl c \<and> beamsConnected b c) bs"

text \<open>
  Four beams: one across at depth 0, the left side from depth 0 to 300, a diagonal from
  the right end of the first beam, and one across at depth 300.
\<close>

definition four_beams :: "beam list" where
  "four_beams =
     [\<lparr>b_x1 = 0, b_y1 = 0, b_x2 = 500, b_y2 = 0, b_profile = ''IPN-80'', b_isAutoStructure = False\<rparr>,
      \<lparr>b_x1 = 0, b_y1 = 0, b_x2 = 0, b_y2 = 300, b_profile = ''IPN-80'', b_isAutoStructure = False\<rparr>,
      \<lparr>b_x1 = 500, b_y1 = 0, b_x2 = 250, b_y2 = 300, b_profile = ''IPN-80'', b_isAutoStructure = False\<rparr>,
      \<lparr>b_x1 = 0, b_y1 = 300, b_x2 = 500, b_y2 = 300, b_profile = ''IPN-80'', b_isAutoStructure = False\<rparr>]"

section \<open>The 3D viewer: panel support\<close>

text \<open>The helper closures of \<open>_buildPanels\<close>; a rectangle is \<open>{minX, maxX, minY, maxY}\<close>.\<close>

definition pointInRect :: "real \<Rightarrow> real \<Rightarrow> bounds \<Rightarrow> bool" where
  "pointInRect x y rc = (x \<ge> minX rc \<and> x \<le> maxX rc \<and> y \<ge> minY rc \<and> y \<le> maxY rc)"

definition epsilon :: real where
  "epsilon = 1 / 1000000"

definition orientation :: "vertex \<Rightarrow> vertex \<Rightarrow> vertex \<Rightarrow> nat" where
  "orientation a b c =
     (let val = (v_y b - v_y a) * (v_x c - v_x b) - (v_x b - v_x a) * (v_y c - v_y b)
      in if \<bar>val\<bar> \<le> epsilon then 0 else if val > 0 then 1 else 2)"

definition onSegment :: "vertex \<Rightarrow> vertex \<Rightarrow> vertex \<Rightarrow> bool" where
  "onSegment a b c =
     (min (v_x a) (v_x b) - epsilon \<le> v_x c \<and> v_x c \<le> max (v_x a) (v_x b) + epsilon \<and>
      min (v_y a) (v_y b) - epsilon \<le> v_y c \<and> v_y c \<le> max (v_y a) (v_y b) + epsilon)"

definition segmentsIntersect :: "vertex \<Rightarrow> vertex \<Rightarrow> vertex \<Rightarrow> vertex \<Rightarrow> bool" where
  "segmentsIntersect p1 p2 p3 p4 =
     (let o1 = orientation p1 p2 p3;
          o2 = orientation p1 p2 p4;
          o3 = orientation p3 p4 p1;
          o4 = orientation p3 p4 p2
      in if o1 \<noteq> o2 \<and> o3 \<noteq> o4 then True
         else if o1 = 0 \<and> onSegment p1 p2 p3 then True
         else if o2 = 0 \<and> onSegment p1 p2 p4 then True
         else if o3 = 0 \<and> onSegment p3 p4 p1 then True
         else if o4 = 0 \<and> onSegment p3 p4 p2 then True
         else False)"

definition segmentIntersectsRect :: "real \<Rightarrow> real \<Rightarrow> real \<Rightarrow> real \<Rightarrow> bounds \<Rightarrow> bool" where
  "segmentIntersectsRect x1 y1 x2 y2 rc =
     (if pointInRect x1 y1 rc \<or> pointInRect x2 y2 rc then True
      else
        (let p1 = \<lparr>v_x = x1, v_y = y1\<rparr>;
             p2 = \<lparr>v_x = x2, v_y = y2\<rparr>;
             tl = \<lparr>v_x = minX rc, v_y = minY rc\<rparr>;
             tr = \<lparr>v_x = maxX rc, v_y = minY rc\<rparr>;
             br = \<lparr>v_x = maxX rc, v_y = maxY rc\<rparr>;
             bl = \<lparr>v_x = minX rc, v_y = maxY rc\<rparr>
         in segmentsIntersect p1 p2 tl tr \<or> segmentsIntersect p1 p2 tr br \<or>
            segmentsIntersect p1 p2 br bl \<or> segmentsIntersect p1 p2 bl tl))"

definition distancePointToSegment ::
  "real \<Rightarrow> real \<Rightarrow> real \<Rightarrow> real \<Rightarrow> real \<Rightarrow> real \<Rightarrow> real" where
  "distancePointToSegment px py x1 y1 x2 y2 =
     (let dx = x2 - x1; dy = y2 - y1
      in if dx = 0 \<and> dy = 0 then sqrt ((px - x1)\<^sup>2 + (py - y1)\<^sup>2)
         else
           (let t = ((px - x1) * dx + (py - y1) * dy) / (dx * dx + dy * dy);
                clamped = max 0 (min 1 t);
                cx = x1 + clamped * dx;
                cy = y1 + clamped * dy
            in sqrt ((px - cx)\<^sup>2 + (py - cy)\<^sup>2)))"

text \<open>
  One round of the search for the nearest beam, on \<open>(minDistance, closestIndex)\<close>;
  \<open>minDistance\<close> starts at \<open>Infinity\<close>, which every distance is below.
\<close>

definition nearestStep :: "panel \<Rightarrow> beam list \<Rightarrow> nat \<Rightarrow> real option \<times> int \<Rightarrow> real option \<times> int" where
  "nearestStep p bs i acc =
     (let centerX = p_x p + p_w p / 2;
          centerY = p_y p + p_h p / 2;
          b = bs ! i;
          distance = distancePointToSegment centerX centerY (b_x1 b) (b_y1 b) (b_x2 b) (b_y2 b)
      in if (case fst acc of None \<Rightarrow> True | Some minDistance \<Rightarrow> distance < minDistance)
         then (Some distance, int i)
         else acc)"

definition getNearestBeamIndex :: "panel \<Rightarrow> beam list \<Rightarrow> int" where
  "getNearestBeamIndex p bs =
     (if bs = [] then -1
      else snd (fold (nearestStep p bs) [0..<length bs] (None, -1)))"

text \<open>\<open>realHeight || h\<close> and the rectangle the beams are tested against.\<close>

definition realH :: "panel \<Rightarrow> real" where
  "realH p = (case p_realHeight p of None \<Rightarrow> p_h p | Some v \<Rightarrow> if v = 0 then p_h p else v)"

definition panelRect :: "panel \<Rightarrow> bounds" where
  "panelRect p = \<lparr>minX = p_x p, maxX = p_x p + p_w p, minY = p_y p, maxY = p_y p + realH p\<rparr>"

text \<open>\<open>beamInclinations[i] ? beamInclinations[i].radians : 0\<close>.\<close>

definition beamRadAt :: "beam_inclination list \<Rightarrow> int \<Rightarrow> real" where
  "beamRadAt beamInclinations i =
     (case js_index beamInclinations i of None \<Rightarrow> 0 | Some bi \<Rightarrow> radians bi)"

text \<open>One round of the loop over the beams, on \<open>(inclRad, intersecting)\<close>.\<close>

definition tiltStep ::
  "beam_inclination list \<Rightarrow> beam list \<Rightarrow> panel \<Rightarrow> nat \<Rightarrow> real \<times> nat list \<Rightarrow> real \<times> nat list" where
  "tiltStep beamInclinations bs p i acc =
     (let b = bs ! i
      in if \<not> segmentIntersectsRect (b_x1 b) (b_y1 b) (b_x2 b) (b_y2 b) (panelRect p) then acc
         else
           (let beamRad = beamRadAt beamInclinations (int i)
            in (if beamRad > fst acc then beamRad else fst acc, snd acc @ [i])))"

text \<open>
  The value of \<open>inclRad\<close> for one panel, after the loop over the beams and the fallback
  to the nearest beam, given the list \<open>beamInclinations\<close>.
\<close>

definition panelInclRad :: "beam_inclination list \<Rightarrow> beam list \<Rightarrow> panel \<Rightarrow> real" where
  "panelInclRad beamInclinations bs p =
     (let acc = fold (tiltStep beamInclinations bs p) [0..<length bs] (0, []);
          inclRad = fst acc;
          intersecting = snd acc
      in if length intersecting = 0 then
           (let beamIndex = getNearestBeamIndex p bs
            in if beamIndex \<noteq> -1 \<and> js_index beamInclinations beamIndex \<noteq> None
               then beamRadAt beamInclinations beamIndex
               else inclRad)
         else inclRad)"

definition buildPanels_inclRad :: "vertex \<Rightarrow> beam list \<Rightarrow> inclination \<Rightarrow> panel \<Rightarrow> real" where
  "buildPanels_inclRad tc bs incl p = panelInclRad (calculateBeamInclinations tc bs incl) bs p"

subsection \<open>What a panel's tilt is meant to be\<close>

text \<open>The beams whose segment intersects the panel's rectangle, by index.\<close>

definition intersecting_beams :: "panel \<Rightarrow> beam list \<Rightarrow> nat list" where
  "intersecting_beams p bs =
     filter (\<lambda>i. segmentIntersectsRect (b_x1 (bs ! i)) (b_y1 (bs ! i)) (b_x2 (bs ! i))
                    (b_y2 (bs ! i)) (panelRect p))
       [0..<length bs]"

text \<open>The distance from the panel's center to a beam's segment.\<close>

definition panel_distance :: "panel \<Rightarrow> beam \<Rightarrow> real" where
  "panel_distance p b =
     distancePointToSegment (p_x p + p_w p / 2) (p_y p + p_h p / 2)
       (b_x1 b) (b_y1 b) (b_x2 b) (b_y2 b)"

text \<open>Beam \<open>k\<close> is a nearest beam: no beam is closer to the panel's center.\<close>

definition is_nearest :: "panel \<Rightarrow> beam list \<Rightarrow> nat \<Rightarrow> bool" where
  "is_nearest p bs k =
     (k < length bs \<and> list_all (\<lambda>b. panel_distance p (bs ! k) \<le> panel_distance p b) bs)"

text \<open>
  Two panels over the three beams: one at the origin, which the three beams cross, and
  one beyond the last beam, which no beam reaches.
\<close>

definition near_panel :: panel where
  "near_panel = \<lparr>p_x = 0, p_y = 0, p_w = 114, p_h = 228, p_realHeight = Some 228,
                  p_inclination = 0, p_power = 610\<rparr>"

definition far_panel :: panel where
  "far_panel = \<lparr>p_x = 443, p_y = 1000, p_w = 114, p_h = 228, p_realHeight = Some 228,
                 p_inclination = 0, p_power = 610\<rparr>"

section \<open>Reachable editor states\<close>


text \<open>
  The states the operations of the 2D editor lead to from a new editor. The terrace, the
  bounds and the scale are written only by the constructor, by confirming a terrace, by
  \<open>setRectangularTerrace\<close>, \<open>clearAll\<close>, \<open>createAutoStructure\<close> and
  \<open>importData\<close>, each a rule of its own; \<open>importData\<close> takes any argument, a
  record of any content or none. Every other operation (the placing tools, selecting,
  moving, copying, pasting, deleting, editing a text, the drawing points, the panel and
  text defaults) changes only the element collections, the drawing points, the selection
  and the defaults: the last rule covers them all.
\<close>

inductive reachable :: "editor2d \<Rightarrow> bool" where
  created: "reachable (newEditor2D optScale)"
| confirmed: "reachable s \<Longrightarrow> reachable (confirmTerrace s)"
| rectangular: "reachable s \<Longrightarrow> reachable (setRectangularTerrace w h s)"
| cleared: "reachable s \<Longrightarrow> reachable (clearAll s)"
| structured:
    "reachable s \<Longrightarrow> reachable (snd (createAutoStructure n sp pr optWidth optHeight s))"
| moved: "reachable s \<Longrightarrow> reachable (snd (moveSelected dx dy s))"
| imported: "reachable s \<Longrightarrow> reachable (importData data s)"
| edited:
    "reachable s \<Longrightarrow>
     reachable (s\<lparr>obstacles := os, beams := bs, panels := ps, texts := ts, tempPoints := tp,
                  selectedElements := sel, panelConfig := pc, textConfig := tcfg\<rparr>)"






text \<open>The accumulators of the structure's box are all finite.\<close>

definition all_finite :: "box_acc \<Rightarrow> bool" where
  "all_finite acc = (case acc of (a, b, c, d) \<Rightarrow> a \<noteq> None \<and> b \<noteq> None \<and> c \<noteq> None \<and> d \<noteq> None)"

section \<open>Facts about the bounds engine\<close>

lemma js_min_simps [simp]:
  "js_min None v = Some v" "js_min (Some m) v = Some (min m v)"
  by (simp_all add: js_min_def)

lemma js_max_simps [simp]:
  "js_max None v = Some v" "js_max (Some m) v = Some (max m v)"
  by (simp_all add: js_max_def)

lemma fold_js_min_Some:
  "fold (\<lambda>v a. js_min a (f v)) vs (Some m) = Some (fold (\<lambda>v a. min a (f v)) vs m)"
  by (induction vs arbitrary: m) simp_all

lemma fold_js_max_Some:
  "fold (\<lambda>v a. js_max a (f v)) vs (Some m) = Some (fold (\<lambda>v a. max a (f v)) vs m)"
  by (induction vs arbitrary: m) simp_all

lemma fold_js_min_Cons:
  "fold (\<lambda>v a. js_min a (f v)) (v # vs) None = Some (fold (\<lambda>v a. min a (f v)) vs (f v))"
  by (simp add: fold_js_min_Some)

lemma fold_js_max_Cons:
  "fold (\<lambda>v a. js_max a (f v)) (v # vs) None = Some (fold (\<lambda>v a. max a (f v)) vs (f v))"
  by (simp add: fold_js_max_Some)

lemma getTerraceBounds_Some:
  assumes "3 \<le> length vs"
  shows "\<exists>b. getTerraceBounds vs = Some b"
proof -
  from assms obtain v ws where "vs = v # ws" by (cases vs) auto
  then show ?thesis
    using assms
    by (simp add: getTerraceBounds_def fold_js_min_Some fold_js_max_Some)
qed

lemma getTerraceBounds_None [simp]: "length vs < 3 \<Longrightarrow> getTerraceBounds vs = None"
  by (simp add: getTerraceBounds_def)








subsection \<open>Bounds nesting\<close>



section \<open>Facts about moving the selection\<close>

lemma map_marked_length [simp]: "length (map_marked mark f xs) = length xs"
  by (simp add: map_marked_def)

lemma map_marked_nth [simp]:
  "i < length xs \<Longrightarrow> map_marked mark f xs ! i = (if mark i then f (xs ! i) else xs ! i)"
  by (simp add: map_marked_def)

lemma map_marked_none [simp]: "map_marked (\<lambda>i. False) f xs = xs"
  by (rule nth_equalityI) simp_all

lemma map_marked_single:
  "i < length xs \<Longrightarrow> map_marked (\<lambda>j. j = i) f xs = xs[i := f (xs ! i)]"
  by (rule nth_equalityI) (simp_all add: nth_list_update)

lemma map_marked_twice:
  assumes "\<And>i. \<not> (m1 i \<and> m2 i)"
  shows "map_marked m2 f (map_marked m1 f xs) = map_marked (\<lambda>i. m1 i \<or> m2 i) f xs"
  using assms by (intro nth_equalityI) auto

lemma move_marked_empty [simp]: "move_marked {} dx dy s = s"
  by (simp add: move_marked_def)

lemma entry_in_range_move_marked [simp]:
  "entry_in_range (move_marked S dx dy s) e = entry_in_range s e"
  by (cases e; cases "fst e") (auto simp: move_marked_def)

lemma moveEntry_marked:
  assumes "entry_in_range s e"
  shows "moveEntry dx dy e s = Some (move_marked {e} dx dy s)"
proof (cases e)
  case (Pair k i)
  show ?thesis
  proof (cases k)
    case PanelT
    with Pair assms show ?thesis
      by (simp add: move_marked_def map_marked_single translate_panel_def Let_def)
  next
    case ObstacleT
    with Pair assms show ?thesis
      by (simp add: move_marked_def map_marked_single translate_obstacle_def Let_def)
  next
    case BeamT
    with Pair assms show ?thesis
      by (simp add: move_marked_def map_marked_single translate_beam_def Let_def)
  next
    case TextT
    with Pair assms show ?thesis
      by (simp add: move_marked_def map_marked_single translate_text_def Let_def)
  qed
qed

lemma move_marked_insert:
  assumes "e \<notin> T"
  shows "move_marked T dx dy (move_marked {e} dx dy s) = move_marked (insert e T) dx dy s"
proof -
  have m: "map_marked (\<lambda>i. (k, i) \<in> T) f (map_marked (\<lambda>i. (k, i) \<in> {e}) f xs) =
           map_marked (\<lambda>i. (k, i) \<in> insert e T) f xs" for k f and xs :: "'a list"
  proof -
    have "map_marked (\<lambda>i. (k, i) \<in> T) f (map_marked (\<lambda>i. (k, i) \<in> {e}) f xs) =
          map_marked (\<lambda>i. (k, i) \<in> {e} \<or> (k, i) \<in> T) f xs"
      using assms by (intro map_marked_twice) auto
    then show ?thesis by (simp add: disj_commute)
  qed
  show ?thesis
    unfolding move_marked_def by (simp add: m del: insert_iff singleton_iff)
qed

lemma moveLoop_marked:
  assumes "list_all (entry_in_range s) es" and "distinct es"
  shows "moveLoop dx dy es s = (Completed, move_marked (set es) dx dy s)"
  using assms
proof (induction es arbitrary: s)
  case Nil
  then show ?case by simp
next
  case (Cons e es)
  let ?s1 = "move_marked {e} dx dy s"
  have step: "moveEntry dx dy e s = Some ?s1"
    using Cons.prems by (simp add: moveEntry_marked)
  have r: "list_all (entry_in_range ?s1) es"
    using Cons.prems by (simp add: list_all_iff)
  have d: "distinct es" and n: "e \<notin> set es"
    using Cons.prems by simp_all
  have "moveLoop dx dy es ?s1 = (Completed, move_marked (set es) dx dy ?s1)"
    by (rule Cons.IH [OF r d])
  also have "move_marked (set es) dx dy ?s1 = move_marked (insert e (set es)) dx dy s"
    by (rule move_marked_insert [OF n])
  finally have "moveLoop dx dy es ?s1 = (Completed, move_marked (insert e (set es)) dx dy s)" .
  with step show ?case by simp
qed

lemma canMoveEntry_in_range:
  "entry_in_range s e \<Longrightarrow> canMoveEntry s dx dy e = Some (\<not> violates_bound s dx dy e)"
  by (cases e; cases "fst e") (auto simp: Let_def)

lemma everyCanMove_in_range:
  "list_all (entry_in_range s) es \<Longrightarrow>
     everyCanMove s dx dy es = Some (\<not> list_ex (violates_bound s dx dy) es)"
  by (induction es) (simp_all add: canMoveEntry_in_range)

lemma no_violation_without_bounds:
  assumes "constructionBounds s = None" and "panelBounds s = None"
  shows "\<not> violates_bound s dx dy e"
  using assms
  by (cases e; cases "fst e")
     (auto simp: isRectWithinPanelBounds_def isLineWithinConstructionBounds_def)

subsection \<open>All-or-nothing move\<close>

text \<open>
  C1 as the source has it. The validation is gated on the construction bounds, so the
  statement needs them set whenever the panel bounds are; the entries of the selection
  are distinct references to existing elements. Then: if the position any selected
  element would have after the displacement violates its bound (panels against the panel
  bounds, beams against the construction bounds, obstacles and texts unconstrained) the
  move is refused and the state is unchanged; otherwise every selected element is
  translated by exactly \<open>(dx, dy)\<close> and nothing else changes.
\<close>

theorem moveSelected_all_or_nothing:
  assumes "list_all (entry_in_range s) (selectedElements s)"
    and "distinct (selectedElements s)"
    and "constructionBounds s = None \<longrightarrow> panelBounds s = None"
  shows "moveSelected dx dy s =
           (if list_ex (violates_bound s dx dy) (selectedElements s) then (Rejected, s)
            else (Completed, translate_selected dx dy s))"
proof (cases "selectedElements s = []")
  case True
  then show ?thesis
    by (simp add: moveSelected_def translate_selected_def)
next
  case nonempty: False
  have loop: "moveLoop dx dy (selectedElements s) s = (Completed, translate_selected dx dy s)"
    unfolding translate_selected_def by (rule moveLoop_marked [OF assms(1,2)])
  show ?thesis
  proof (cases "constructionBounds s")
    case None
    with assms(3) have "panelBounds s = None" by simp
    with None have "\<not> list_ex (violates_bound s dx dy) (selectedElements s)"
      by (simp add: list_ex_iff no_violation_without_bounds)
    with None nonempty loop show ?thesis
      by (simp add: moveSelected_def)
  next
    case (Some cb)
    with nonempty loop show ?thesis
      by (simp add: moveSelected_def everyCanMove_in_range [OF assms(1)])
  qed
qed

text \<open>
  On the example layout a displacement of 600 takes the beam out of the construction
  bounds and is refused; a displacement of (10, 5) moves the panel and the beam.
\<close>

theorem moveSelected_all_or_nothing_witness:
  "list_all (entry_in_range example_layout) (selectedElements example_layout) \<and>
   distinct (selectedElements example_layout) \<and>
   constructionBounds example_layout \<noteq> None \<and>
   moveSelected 600 0 example_layout = (Rejected, example_layout) \<and>
   fst (moveSelected 10 5 example_layout) = Completed \<and>
   panels (snd (moveSelected 10 5 example_layout)) =
     [\<lparr>p_x = 10, p_y = 5, p_w = 114, p_h = 228, p_realHeight = Some 228,
       p_inclination = 0, p_power = 610\<rparr>] \<and>
   beams (snd (moveSelected 10 5 example_layout)) =
     [\<lparr>b_x1 = 10, b_y1 = 5, b_x2 = 110, b_y2 = 5, b_profile = ''IPN-80'',
       b_isAutoStructure = False\<rparr>]"
proof -
  have cb: "constructionBounds example_layout = Some \<lparr>minX = -10, maxX = 595, minY = -10, maxY = 398\<rparr>"
    and pb: "panelBounds example_layout = Some \<lparr>minX = -50, maxX = 635, minY = -50, maxY = 438\<rparr>"
    and ps: "panels example_layout = [\<lparr>p_x = 0, p_y = 0, p_w = 114, p_h = 228,
               p_realHeight = Some 228, p_inclination = 0, p_power = 610\<rparr>]"
    and bs: "beams example_layout = [\<lparr>b_x1 = 0, b_y1 = 0, b_x2 = 100, b_y2 = 0,
               b_profile = ''IPN-80'', b_isAutoStructure = False\<rparr>]"
    and sel: "selectedElements example_layout = [(PanelT, 0), (BeamT, 0)]"
    by (simp_all add: example_layout_def setRectangularTerrace_def getTerraceBounds_def
          newEditor2D_def calculateConstructionBounds_def calculatePanelBounds_def)
  have h1: "list_all (entry_in_range example_layout) (selectedElements example_layout)"
    by (simp add: sel ps bs)
  have h2: "distinct (selectedElements example_layout)"
    by (simp add: sel)
  have h3: "constructionBounds example_layout = None \<longrightarrow> panelBounds example_layout = None"
    by (simp add: cb)
  have far: "moveSelected 600 0 example_layout = (Rejected, example_layout)"
    using moveSelected_all_or_nothing [OF h1 h2 h3, of 600 0]
    by (simp add: sel ps bs cb pb isRectWithinPanelBounds_def
          isLineWithinConstructionBounds_def isWithinConstructionBounds_def)
  have near: "moveSelected 10 5 example_layout = (Completed, translate_selected 10 5 example_layout)"
    using moveSelected_all_or_nothing [OF h1 h2 h3, of 10 5]
    by (simp add: sel ps bs cb pb isRectWithinPanelBounds_def
          isLineWithinConstructionBounds_def isWithinConstructionBounds_def)
  have moved_p: "panels (translate_selected 10 5 example_layout) =
      [\<lparr>p_x = 10, p_y = 5, p_w = 114, p_h = 228, p_realHeight = Some 228,
        p_inclination = 0, p_power = 610\<rparr>]"
    by (simp add: translate_selected_def move_marked_def map_marked_def sel ps translate_panel_def)
  have moved_b: "beams (translate_selected 10 5 example_layout) =
      [\<lparr>b_x1 = 10, b_y1 = 5, b_x2 = 110, b_y2 = 5, b_profile = ''IPN-80'',
        b_isAutoStructure = False\<rparr>]"
    by (simp add: translate_selected_def move_marked_def map_marked_def sel bs translate_beam_def)
  show ?thesis
    using h1 h2 far near moved_p moved_b by (simp add: cb)
qed

text \<open>
  The claim as written fails where the panel bounds are set and the construction bounds
  are not, as after the import of a record with panel bounds and no terrace: the
  validation is skipped, and a panel whose new position leaves the panel bounds is moved
  all the same.
\<close>

theorem moveSelected_unvalidated_counterexample:
  "reachable panel_bounds_only \<and>
   constructionBounds panel_bounds_only = None \<and>
   panelBounds panel_bounds_only = Some \<lparr>minX = 0, maxX = 100, minY = 0, maxY = 100\<rparr> \<and>
   list_ex (violates_bound panel_bounds_only 1000 0) (selectedElements panel_bounds_only) \<and>
   fst (moveSelected 1000 0 panel_bounds_only) = Completed \<and>
   panels (snd (moveSelected 1000 0 panel_bounds_only)) =
     [\<lparr>p_x = 1000, p_y = 0, p_w = 10, p_h = 10, p_realHeight = Some 10,
       p_inclination = 0, p_power = 610\<rparr>] \<and>
   panels panel_bounds_only =
     [\<lparr>p_x = 0, p_y = 0, p_w = 10, p_h = 10, p_realHeight = Some 10,
       p_inclination = 0, p_power = 610\<rparr>]"
proof -
  let ?d = "\<lparr>d_terraceVertices = None, d_constructionBounds = None,
             d_panelBounds = Some \<lparr>minX = 0, maxX = 100, minY = 0, maxY = 100\<rparr>,
             d_obstacles = None, d_beams = None,
             d_panels = Some [\<lparr>p_x = 0, p_y = 0, p_w = 10, p_h = 10, p_realHeight = Some 10,
                               p_inclination = 0, p_power = 610\<rparr>],
             d_texts = None, d_panelConfig = None, d_textConfig = None, d_scale = None\<rparr>"
  let ?s = "importData (Some ?d) (newEditor2D None)"
  have "reachable ?s"
    by (intro reachable.imported reachable.created)
  then have "reachable (?s\<lparr>obstacles := obstacles ?s, beams := beams ?s, panels := panels ?s,
      texts := texts ?s, tempPoints := tempPoints ?s, selectedElements := [(PanelT, 0)],
      panelConfig := panelConfig ?s, textConfig := textConfig ?s\<rparr>)"
    by (rule reachable.edited)
  moreover have "?s\<lparr>obstacles := obstacles ?s, beams := beams ?s, panels := panels ?s,
      texts := texts ?s, tempPoints := tempPoints ?s, selectedElements := [(PanelT, 0)],
      panelConfig := panelConfig ?s, textConfig := textConfig ?s\<rparr> = panel_bounds_only"
    by (simp add: panel_bounds_only_def)
  ultimately have r: "reachable panel_bounds_only" by simp
  have "constructionBounds panel_bounds_only = None \<and>
   panelBounds panel_bounds_only = Some \<lparr>minX = 0, maxX = 100, minY = 0, maxY = 100\<rparr> \<and>
   list_ex (violates_bound panel_bounds_only 1000 0) (selectedElements panel_bounds_only) \<and>
   fst (moveSelected 1000 0 panel_bounds_only) = Completed \<and>
   panels (snd (moveSelected 1000 0 panel_bounds_only)) =
     [\<lparr>p_x = 1000, p_y = 0, p_w = 10, p_h = 10, p_realHeight = Some 10,
       p_inclination = 0, p_power = 610\<rparr>] \<and>
   panels panel_bounds_only =
     [\<lparr>p_x = 0, p_y = 0, p_w = 10, p_h = 10, p_realHeight = Some 10,
       p_inclination = 0, p_power = 610\<rparr>]"
    by (simp add: panel_bounds_only_def importData_def newEditor2D_def or_default_def
          importScale_def moveSelected_def isRectWithinPanelBounds_def Let_def)
  with r show ?thesis by simp
qed

section \<open>Facts about the automatic structure\<close>

declare parallelLoop.simps [simp del]






lemma setRectangularTerrace_has_bounds:
  "\<exists>tb. getTerraceBounds (terraceVertices (setRectangularTerrace w h s)) = Some tb"
proof -
  have "terraceVertices (setRectangularTerrace w h s) =
          [\<lparr>v_x = 0, v_y = 0\<rparr>, \<lparr>v_x = w, v_y = 0\<rparr>, \<lparr>v_x = w, v_y = h\<rparr>, \<lparr>v_x = 0, v_y = h\<rparr>]"
    by (simp add: setRectangularTerrace_def Let_def split: option.split)
  then show ?thesis
    using getTerraceBounds_Some [of "terraceVertices (setRectangularTerrace w h s)"] by simp
qed







subsection \<open>Feasibility of the automatic structure\<close>

lemma createAutoStructure_has_terrace:
  "\<exists>tb. getTerraceBounds
          (terraceVertices (snd (createAutoStructure N S profile optWidth optHeight s))) = Some tb"
proof -
  define s1 where "s1 = (if getTerraceBounds (terraceVertices s) = None
                         then setRectangularTerrace (or_number optWidth 585)
                                (or_number optHeight 388) s
                         else s)"
  have "\<exists>b. getTerraceBounds (terraceVertices s1) = Some b"
  proof (cases "getTerraceBounds (terraceVertices s)")
    case None
    then show ?thesis
      using setRectangularTerrace_has_bounds [of "or_number optWidth 585" "or_number optHeight 388" s]
      by (simp add: s1_def)
  next
    case (Some b)
    then show ?thesis by (simp add: s1_def)
  qed
  then obtain tb where tb: "getTerraceBounds (terraceVertices s1) = Some tb" ..
  have "terraceVertices (snd (createAutoStructure N S profile optWidth optHeight s)) =
        terraceVertices s1"
    unfolding createAutoStructure_def s1_def [symmetric] Let_def
    by (simp add: tb)
  with tb show ?thesis by simp
qed




section \<open>Facts about the inclination range\<close>

lemma js_index_in_range [simp]:
  "0 \<le> i \<Longrightarrow> i < int (length xs) \<Longrightarrow> js_index xs i = Some (xs ! nat i)"
  by (simp add: js_index_def)

lemma rangeStep_in_range:
  "0 \<le> i \<Longrightarrow> i < int (length bs) \<Longrightarrow> rangeStep tc bs i acc = beamStep tc (bs ! nat i) acc"
  by (simp add: rangeStep_def beamStep_def)

lemma fold_rangeStep:
  assumes "0 \<le> a" and "b < int (length bs)"
  shows "fold (rangeStep tc bs) [a..b] acc =
         fold (beamStep tc) (take (nat (b - a + 1)) (drop (nat a) bs)) acc"
  using assms
proof (induction a b arbitrary: acc rule: upto.induct)
  case (1 i j)
  show ?case
  proof (cases "i \<le> j")
    case False
    then show ?thesis by (simp add: upto_rec1)
  next
    case True
    have len: "nat i < length bs" using True "1.prems" by simp
    have d: "drop (nat i) bs = bs ! nat i # drop (nat (i + 1)) bs"
      using len "1.prems"(1) by (simp add: Cons_nth_drop_Suc nat_add_distrib)
    have k: "nat (j - i + 1) = Suc (nat (j - (i + 1) + 1))"
      using True by simp
    have "fold (rangeStep tc bs) [i..j] acc =
          fold (rangeStep tc bs) [i + 1..j] (rangeStep tc bs i acc)"
      using True by (simp add: upto_rec1)
    also have "\<dots> = fold (beamStep tc) (take (nat (j - (i + 1) + 1)) (drop (nat (i + 1)) bs))
                       (rangeStep tc bs i acc)"
      using "1.IH" [OF True] "1.prems" by simp
    also have "rangeStep tc bs i acc = beamStep tc (bs ! nat i) acc"
      using True "1.prems" by (simp add: rangeStep_in_range)
    finally show ?thesis
      by (simp only: d k take_Suc_Cons fold_simps)
  qed
qed

lemma fold_beamStep_Some:
  "fold (beamStep tc) cs (Some m, Some M) =
     (Some (fold min (endpoint_depths tc cs) m), Some (fold max (endpoint_depths tc cs) M))"
proof (induction cs arbitrary: m M)
  case Nil
  show ?case by (simp add: endpoint_depths_def)
next
  case (Cons c cs)
  have "beamStep tc c (Some m, Some M) =
          (Some (min (b_y2 c - v_y tc) (min (b_y1 c - v_y tc) m)),
           Some (max (b_y2 c - v_y tc) (max (b_y1 c - v_y tc) M)))"
    by (simp add: beamStep_def min.commute max.commute)
  then show ?case
    using Cons.IH by (simp add: endpoint_depths_def)
qed

lemma fold_beamStep_None:
  assumes "cs \<noteq> []"
  shows "fold (beamStep tc) cs (None, None) =
           (Some (Min (set (endpoint_depths tc cs))), Some (Max (set (endpoint_depths tc cs))))"
proof -
  obtain c cs' where cs: "cs = c # cs'" using assms by (cases cs) auto
  let ?d1 = "b_y1 c - v_y tc" and ?d2 = "b_y2 c - v_y tc"
  have first: "beamStep tc c (None, None) = (Some (min ?d1 ?d2), Some (max ?d1 ?d2))"
    by (simp add: beamStep_def)
  have ds: "endpoint_depths tc cs = ?d1 # ?d2 # endpoint_depths tc cs'"
    by (simp add: cs endpoint_depths_def)
  have "Min (set (endpoint_depths tc cs)) = fold min (endpoint_depths tc cs') (min ?d2 ?d1)"
    unfolding ds by (simp only: Min.set_eq_fold fold_simps)
  moreover have "Max (set (endpoint_depths tc cs)) = fold max (endpoint_depths tc cs') (max ?d2 ?d1)"
    unfolding ds by (simp only: Max.set_eq_fold fold_simps)
  ultimately show ?thesis
    by (simp add: cs first fold_beamStep_Some min.commute max.commute)
qed

lemma clamped_bounds:
  assumes "bs \<noteq> []"
  shows "0 \<le> clampedStart bs incl" "clampedStart bs incl < int (length bs)"
    "0 \<le> clampedEnd bs incl" "clampedEnd bs incl < int (length bs)"
  using assms by (auto simp: clampedStart_def clampedEnd_def)

lemma clampedEnd_last: "bs \<noteq> [] \<Longrightarrow> endBeam incl = -1 \<Longrightarrow> clampedEnd bs incl = int (length bs) - 1"
  by (simp add: clampedEnd_def)

text \<open>The branch \<open>endBeam = -1\<close>: the loop runs from the clamped start to the last beam.\<close>

lemma getInclinationRange_to_last:
  assumes "bs \<noteq> []" and "endBeam incl = -1"
  shows "getInclinationRange tc bs incl =
           Some \<lparr>startIndex = clampedStart bs incl, endIndex = int (length bs) - 1,
                 minZ = Min (set (endpoint_depths tc (drop (nat (clampedStart bs incl)) bs))),
                 maxZ = Max (set (endpoint_depths tc (drop (nat (clampedStart bs incl)) bs))),
                 invert = False\<rparr>"
proof -
  let ?n = "int (length bs)"
  let ?s = "clampedStart bs incl"
  have s: "0 \<le> ?s" "?s < ?n" using clamped_bounds [OF assms(1)] by simp_all
  have e: "max 0 (min (?n - 1) (?n - 1)) = ?n - 1" using assms(1) by simp
  have mn: "min ?s (?n - 1) = ?s" and mx: "max ?s (?n - 1) = ?n - 1" using s by simp_all
  have nonempty: "drop (nat ?s) bs \<noteq> []" using s by simp
  have "fold (rangeStep tc bs) [?s..?n - 1] (None, None) =
        fold (beamStep tc) (take (nat (?n - 1 - ?s + 1)) (drop (nat ?s) bs)) (None, None)"
    using s by (intro fold_rangeStep) simp_all
  also have "take (nat (?n - 1 - ?s + 1)) (drop (nat ?s) bs) = drop (nat ?s) bs"
    using s by simp
  finally have loop: "fold (rangeStep tc bs) [?s..?n - 1] (None, None) =
      (Some (Min (set (endpoint_depths tc (drop (nat ?s) bs)))),
       Some (Max (set (endpoint_depths tc (drop (nat ?s) bs)))))"
    by (simp add: fold_beamStep_None [OF nonempty])
  have cs: "max 0 (min (startBeam incl) (?n - 1)) = ?s"
    by (simp add: clampedStart_def)
  show ?thesis
    using assms s
    unfolding getInclinationRange_def Let_def
    by (simp only: cs e mn mx loop if_True if_False option.case prod.case assms refl) simp
qed

text \<open>The other branch reads the two clamped beams.\<close>

lemma getInclinationRange_pair:
  assumes "bs \<noteq> []" and "endBeam incl \<noteq> -1"
  shows "\<exists>mn mx. getInclinationRange tc bs incl =
           Some \<lparr>startIndex = min (clampedStart bs incl) (clampedEnd bs incl),
                 endIndex = max (clampedStart bs incl) (clampedEnd bs incl),
                 minZ = mn, maxZ = mx,
                 invert = (clampedEnd bs incl < clampedStart bs incl)\<rparr> \<and> mn \<le> mx"
proof -
  have s: "0 \<le> clampedStart bs incl" "clampedStart bs incl < int (length bs)"
    and e: "0 \<le> clampedEnd bs incl" "clampedEnd bs incl < int (length bs)"
    using clamped_bounds [OF assms(1)] by simp_all
  have cs: "max 0 (min (startBeam incl) (int (length bs) - 1)) = clampedStart bs incl"
    by (simp add: clampedStart_def)
  have ce: "max 0 (min (endBeam incl) (int (length bs) - 1)) = clampedEnd bs incl"
    using assms(2) by (simp add: clampedEnd_def)
  show ?thesis
    using assms s e
    unfolding getInclinationRange_def Let_def
    by (simp add: cs ce le_max_iff_disj min_le_iff_disj)
qed

lemma range_ordered:
  assumes "getInclinationRange tc bs incl = Some r"
  shows "minZ r \<le> maxZ r"
proof -
  have ne: "bs \<noteq> []" using assms by (auto simp: getInclinationRange_def)
  show ?thesis
  proof (cases "endBeam incl = -1")
    case True
    let ?D = "set (endpoint_depths tc (drop (nat (clampedStart bs incl)) bs))"
    have "drop (nat (clampedStart bs incl)) bs \<noteq> []"
      using clamped_bounds [OF ne, of incl] by simp
    then have "?D \<noteq> {}"
      by (cases "drop (nat (clampedStart bs incl)) bs") (simp_all add: endpoint_depths_def)
    then have "Min ?D \<le> Max ?D" by (simp add: Min_le_iff)
    then show ?thesis
      using getInclinationRange_to_last [OF ne True, of tc] assms by auto
  next
    case False
    then show ?thesis
      using getInclinationRange_pair [OF ne False, of tc] assms by auto
  qed
qed

subsection \<open>The range of a request that runs to the last beam\<close>

text \<open>
  C7 as the source has it. For a non-empty beam collection and a request with
  \<open>endBeam = -1\<close>, the resolved depth range is the minimum and the maximum depth
  coordinate over the endpoints of the beams from the clamped start index to the last
  beam; it is the extent of the whole collection when \<open>startBeam \<le> 0\<close>.
\<close>

theorem inclination_range_to_last_beam:
  assumes "bs \<noteq> []" and "endBeam incl = -1"
  shows "\<exists>r. getInclinationRange tc bs incl = Some r \<and>
           minZ r = Min (set (endpoint_depths tc (drop (nat (clampedStart bs incl)) bs))) \<and>
           maxZ r = Max (set (endpoint_depths tc (drop (nat (clampedStart bs incl)) bs))) \<and>
           (startBeam incl \<le> 0 \<longrightarrow>
              minZ r = Min (set (endpoint_depths tc bs)) \<and>
              maxZ r = Max (set (endpoint_depths tc bs)))"
proof -
  have "clampedStart bs incl = 0" if "startBeam incl \<le> 0"
    using that assms(1) by (simp add: clampedStart_def)
  then show ?thesis
    using getInclinationRange_to_last [OF assms, of tc] by auto
qed

text \<open>
  Three beams at depths 0, 100 and 200: from beam 0 the range is 0 to 200, from beam 1
  it is 100 to 200.
\<close>

theorem inclination_range_to_last_beam_witness:
  "three_beams \<noteq> [] \<and>
   getInclinationRange \<lparr>v_x = 0, v_y = 0\<rparr> three_beams \<lparr>degrees = 20, startBeam = 0, endBeam = -1\<rparr> =
     Some \<lparr>startIndex = 0, endIndex = 2, minZ = 0, maxZ = 200, invert = False\<rparr> \<and>
   (\<exists>r. getInclinationRange \<lparr>v_x = 0, v_y = 0\<rparr> three_beams
           \<lparr>degrees = 20, startBeam = 1, endBeam = -1\<rparr> = Some r \<and>
        minZ r = 100 \<and> maxZ r = 200)"
proof -
  have ne: "three_beams \<noteq> []" by (simp add: three_beams_def)
  have e0: "endBeam \<lparr>degrees = 20, startBeam = 0, endBeam = -1\<rparr> = -1"
    and e1: "endBeam \<lparr>degrees = 20, startBeam = 1, endBeam = -1\<rparr> = -1"
    by simp_all
  have a: "\<exists>r. getInclinationRange \<lparr>v_x = 0, v_y = 0\<rparr> three_beams
             \<lparr>degrees = 20, startBeam = 0, endBeam = -1\<rparr> = Some r \<and> minZ r = 0 \<and> maxZ r = 200"
    using inclination_range_to_last_beam [OF ne e0, of "\<lparr>v_x = 0, v_y = 0\<rparr>"]
    by (auto simp: three_beams_def endpoint_depths_def)
  have b: "\<exists>r. getInclinationRange \<lparr>v_x = 0, v_y = 0\<rparr> three_beams
             \<lparr>degrees = 20, startBeam = 1, endBeam = -1\<rparr> = Some r \<and> minZ r = 100 \<and> maxZ r = 200"
    using inclination_range_to_last_beam [OF ne e1, of "\<lparr>v_x = 0, v_y = 0\<rparr>"]
    by (auto simp: three_beams_def endpoint_depths_def clampedStart_def)
  have c: "getInclinationRange \<lparr>v_x = 0, v_y = 0\<rparr> three_beams
             \<lparr>degrees = 20, startBeam = 0, endBeam = -1\<rparr> =
           Some \<lparr>startIndex = 0, endIndex = 2, minZ = 0, maxZ = 200, invert = False\<rparr>"
    using a getInclinationRange_to_last [OF ne e0, of "\<lparr>v_x = 0, v_y = 0\<rparr>"]
    by (auto simp: clampedStart_def three_beams_def)
  show ?thesis using ne b c by simp
qed

text \<open>
  The claim as written fails for a start index above 0: from beam 1 the range starts at
  depth 100, while the collection's least depth is 0.
\<close>

theorem inclination_range_ignores_earlier_beams_counterexample:
  "three_beams \<noteq> [] \<and>
   getInclinationRange \<lparr>v_x = 0, v_y = 0\<rparr> three_beams \<lparr>degrees = 20, startBeam = 1, endBeam = -1\<rparr> =
     Some \<lparr>startIndex = 1, endIndex = 2, minZ = 100, maxZ = 200, invert = False\<rparr> \<and>
   Min (set (endpoint_depths \<lparr>v_x = 0, v_y = 0\<rparr> three_beams)) = 0 \<and>
   Max (set (endpoint_depths \<lparr>v_x = 0, v_y = 0\<rparr> three_beams)) = 200"
proof -
  have ne: "three_beams \<noteq> []" by (simp add: three_beams_def)
  have e1: "endBeam \<lparr>degrees = 20, startBeam = 1, endBeam = -1\<rparr> = -1" by simp
  have "getInclinationRange \<lparr>v_x = 0, v_y = 0\<rparr> three_beams
          \<lparr>degrees = 20, startBeam = 1, endBeam = -1\<rparr> =
        Some \<lparr>startIndex = 1, endIndex = 2, minZ = 100, maxZ = 200, invert = False\<rparr>"
    using getInclinationRange_to_last [OF ne e1, of "\<lparr>v_x = 0, v_y = 0\<rparr>"]
    by (simp add: clampedStart_def three_beams_def endpoint_depths_def)
  then show ?thesis
    using ne by (simp add: three_beams_def endpoint_depths_def)
qed

subsection \<open>Resolving the range is total\<close>

text \<open>
  C10. The result is \<open>null\<close> exactly for the empty beam collection (every coordinate
  of the model is finite). For a non-empty collection and any pair of integer indices:
  the indices the function reads, the clamped start, the clamped end and every index of
  the loop between them, are inside the array; a range is returned; its invert flag holds
  exactly when the clamped end index is strictly below the clamped start index, hence
  never when \<open>endBeam = -1\<close>.
\<close>

theorem getInclinationRange_total:
  "(getInclinationRange tc bs incl = None) = (bs = []) \<and>
   (bs \<noteq> [] \<longrightarrow>
      0 \<le> clampedStart bs incl \<and> clampedStart bs incl < int (length bs) \<and>
      0 \<le> clampedEnd bs incl \<and> clampedEnd bs incl < int (length bs) \<and>
      js_index bs (clampedStart bs incl) \<noteq> None \<and>
      js_index bs (clampedEnd bs incl) \<noteq> None \<and>
      list_all (\<lambda>i. js_index bs i \<noteq> None)
        [min (clampedStart bs incl) (clampedEnd bs incl)..
         max (clampedStart bs incl) (clampedEnd bs incl)] \<and>
      (\<exists>r. getInclinationRange tc bs incl = Some r \<and>
           startIndex r = min (clampedStart bs incl) (clampedEnd bs incl) \<and>
           endIndex r = max (clampedStart bs incl) (clampedEnd bs incl) \<and>
           invert r = (clampedEnd bs incl < clampedStart bs incl) \<and>
           (endBeam incl = -1 \<longrightarrow> \<not> invert r)))"
proof (cases "bs = []")
  case True
  then show ?thesis by (simp add: getInclinationRange_def)
next
  case False
  note b = clamped_bounds [OF False, of incl]
  have reads: "list_all (\<lambda>i. js_index bs i \<noteq> None)
        [min (clampedStart bs incl) (clampedEnd bs incl)..
         max (clampedStart bs incl) (clampedEnd bs incl)]"
    using b by (auto simp: list_all_iff)
  have res: "\<exists>r. getInclinationRange tc bs incl = Some r \<and>
           startIndex r = min (clampedStart bs incl) (clampedEnd bs incl) \<and>
           endIndex r = max (clampedStart bs incl) (clampedEnd bs incl) \<and>
           invert r = (clampedEnd bs incl < clampedStart bs incl) \<and>
           (endBeam incl = -1 \<longrightarrow> \<not> invert r)"
  proof (cases "endBeam incl = -1")
    case True
    have "clampedEnd bs incl = int (length bs) - 1"
      using False True by (rule clampedEnd_last)
    then show ?thesis
      using getInclinationRange_to_last [OF False True, of tc] b by auto
  next
    case neq: False
    then show ?thesis
      using getInclinationRange_pair [OF False neq, of tc] by auto
  qed
  then have "getInclinationRange tc bs incl \<noteq> None" by auto
  with False b reads res show ?thesis by simp
qed

text \<open>
  Three beams with the request indices 7 and -5: the clamped indices are 2 and 0, the
  range runs from depth 0 to 200 and is inverted.
\<close>

theorem getInclinationRange_total_witness:
  "three_beams \<noteq> [] \<and>
   clampedStart three_beams \<lparr>degrees = 20, startBeam = 7, endBeam = -5\<rparr> = 2 \<and>
   clampedEnd three_beams \<lparr>degrees = 20, startBeam = 7, endBeam = -5\<rparr> = 0 \<and>
   getInclinationRange \<lparr>v_x = 0, v_y = 0\<rparr> three_beams \<lparr>degrees = 20, startBeam = 7, endBeam = -5\<rparr> =
     Some \<lparr>startIndex = 0, endIndex = 2, minZ = 0, maxZ = 200, invert = True\<rparr> \<and>
   getInclinationRange \<lparr>v_x = 0, v_y = 0\<rparr> [] \<lparr>degrees = 20, startBeam = 7, endBeam = -5\<rparr> = None"
proof -
  let ?q = "\<lparr>degrees = 20, startBeam = 7, endBeam = -5\<rparr>"
  let ?o = "\<lparr>v_x = 0, v_y = 0\<rparr>"
  have ne: "three_beams \<noteq> []" by (simp add: three_beams_def)
  have cs: "clampedStart three_beams ?q = 2" and ce: "clampedEnd three_beams ?q = 0"
    by (simp_all add: clampedStart_def clampedEnd_def three_beams_def)
  have "\<exists>r. getInclinationRange ?o three_beams ?q = Some r \<and> startIndex r = 0 \<and>
             endIndex r = 2 \<and> invert r"
    using getInclinationRange_total [of ?o three_beams ?q] ne by (simp add: cs ce)
  moreover have "\<exists>mn mx. getInclinationRange ?o three_beams ?q =
      Some \<lparr>startIndex = 0, endIndex = 2, minZ = mn, maxZ = mx, invert = True\<rparr> \<and>
      mn = 0 \<and> mx = 200"
    by (simp add: getInclinationRange_def three_beams_def js_index_def Let_def)
  ultimately have r: "getInclinationRange ?o three_beams ?q =
      Some \<lparr>startIndex = 0, endIndex = 2, minZ = 0, maxZ = 200, invert = True\<rparr>"
    by auto
  have "getInclinationRange ?o [] ?q = None"
    using getInclinationRange_total [of ?o "[]" ?q] by simp
  with ne cs ce r show ?thesis by simp
qed

section \<open>Facts about the height profile\<close>

lemma applyPoint_finite [simp]: "all_finite (applyPoint x z acc)"
  by (cases acc) (simp add: applyPoint_def all_finite_def js_min_def js_max_def)

lemma fold_applyPoint_finite:
  "all_finite acc \<Longrightarrow>
   all_finite (fold (\<lambda>b a. applyPoint (f2 b) (g2 b) (applyPoint (f1 b) (g1 b) a)) bs acc)"
  by (induction bs arbitrary: acc) simp_all

lemma getStructureBounds_beams:
  assumes "bs \<noteq> []"
  shows "getStructureBounds tc bs vs \<noteq> None"
proof -
  obtain b bs' where bs: "bs = b # bs'" using assms by (cases bs) auto
  let ?step = "\<lambda>b a. applyPoint (b_x2 b - v_x tc) (b_y2 b - v_y tc)
                         (applyPoint (b_x1 b - v_x tc) (b_y1 b - v_y tc) a)"
  have "all_finite (fold ?step bs (None, None, None, None))"
    unfolding bs by (simp add: fold_applyPoint_finite)
  then show ?thesis
    using assms by (auto simp: getStructureBounds_def all_finite_def Let_def split: prod.splits)
qed

lemma no_bounds_no_span:
  assumes "getStructureBounds tc bs [] = None"
  shows "profileMax tc bs incl - profileMin tc bs incl = 0"
proof -
  have "bs = []" using assms getStructureBounds_beams by blast
  then show ?thesis
    using assms by (simp add: profileMax_def profileMin_def getInclinationRange_def)
qed

lemma flip_clamp: "max 0 (min 1 (1 - t)) = 1 - max 0 (min 1 (t::real))"
  by (simp add: max_def min_def)

lemma getHeightAtZ_buildBeams_heightAt:
  "getHeightAtZ_buildBeams tc bs h incl z rad =
     heightAt h (profileMin tc bs incl) (profileMax tc bs incl - profileMin tc bs incl)
       (profileInverted tc bs incl) z rad"
proof (cases "getStructureBounds tc bs [] = None")
  case True
  have "getHeightAtZ_buildBeams tc bs h incl z rad = h"
    using True by (simp add: getHeightAtZ_buildBeams_def)
  moreover have "profileMax tc bs incl - profileMin tc bs incl = 0"
    using True by (rule no_bounds_no_span)
  ultimately show ?thesis by (simp add: heightAt_def)
next
  case False
  then obtain sb where "getStructureBounds tc bs [] = Some sb" by auto
  then show ?thesis
    unfolding getHeightAtZ_buildBeams_def heightAt_def Let_def
      profileMin_def [symmetric] profileMax_def [symmetric] profileInverted_def [symmetric]
    by (simp add: flip_clamp)
qed

lemma getHeightAtZ_buildPanels_heightAt:
  "getHeightAtZ_buildPanels tc bs h incl z rad =
     heightAt h (profileMin tc bs incl) (profileMax tc bs incl - profileMin tc bs incl)
       (profileInverted tc bs incl) z rad"
proof (cases "getStructureBounds tc bs [] = None")
  case True
  have "getHeightAtZ_buildPanels tc bs h incl z rad = h"
    using True by (simp add: getHeightAtZ_buildPanels_def)
  moreover have "profileMax tc bs incl - profileMin tc bs incl = 0"
    using True by (rule no_bounds_no_span)
  ultimately show ?thesis by (simp add: heightAt_def)
next
  case False
  then obtain sb where "getStructureBounds tc bs [] = Some sb" by auto
  then show ?thesis
    unfolding getHeightAtZ_buildPanels_def heightAt_def Let_def
      profileMin_def [symmetric] profileMax_def [symmetric] profileInverted_def [symmetric]
    by (simp add: flip_clamp)
qed

subsection \<open>One height function for beams and panels\<close>

text \<open>
  C2. The height function that places the beams and the one that supports the panels
  return the same value for every beam collection, request, base height, depth and tilt,
  and that value is the specification's \<open>heightAt\<close> over the request's profile.
\<close>

theorem getHeightAtZ_shared:
  "getHeightAtZ_buildBeams tc bs h incl z rad = getHeightAtZ_buildPanels tc bs h incl z rad \<and>
   getHeightAtZ_buildPanels tc bs h incl z rad =
     heightAt h (profileMin tc bs incl) (profileMax tc bs incl - profileMin tc bs incl)
       (profileInverted tc bs incl) z rad"
  by (simp add: getHeightAtZ_buildBeams_heightAt getHeightAtZ_buildPanels_heightAt)

section \<open>Facts about the per-beam inclinations\<close>

lemma fold_js_min2_Some:
  "fold (\<lambda>b a. js_min (js_min a (f b)) (g b)) bs (Some m) =
     Some (fold min (concat (map (\<lambda>b. [f b, g b]) bs)) m)"
  by (induction bs arbitrary: m) (simp_all add: min.commute)

lemma fold_js_max2_Some:
  "fold (\<lambda>b a. js_max (js_max a (f b)) (g b)) bs (Some m) =
     Some (fold max (concat (map (\<lambda>b. [f b, g b]) bs)) m)"
  by (induction bs arbitrary: m) (simp_all add: max.commute)

lemma fold_js_min2_None:
  assumes "bs \<noteq> []"
  shows "fold (\<lambda>b a. js_min (js_min a (f b)) (g b)) bs None =
           Some (Min (set (concat (map (\<lambda>b. [f b, g b]) bs))))"
proof -
  obtain c cs where bs: "bs = c # cs" using assms by (cases bs) auto
  have "Min (set (concat (map (\<lambda>b. [f b, g b]) bs))) =
        fold min (concat (map (\<lambda>b. [f b, g b]) cs)) (min (g c) (f c))"
    unfolding bs by (simp only: list.map concat.simps append.simps Min.set_eq_fold fold_simps)
  then show ?thesis
    by (simp add: bs fold_js_min2_Some min.commute)
qed

lemma fold_js_max2_None:
  assumes "bs \<noteq> []"
  shows "fold (\<lambda>b a. js_max (js_max a (f b)) (g b)) bs None =
           Some (Max (set (concat (map (\<lambda>b. [f b, g b]) bs))))"
proof -
  obtain c cs where bs: "bs = c # cs" using assms by (cases bs) auto
  have "Max (set (concat (map (\<lambda>b. [f b, g b]) bs))) =
        fold max (concat (map (\<lambda>b. [f b, g b]) cs)) (max (g c) (f c))"
    unfolding bs by (simp only: list.map concat.simps append.simps Max.set_eq_fold fold_simps)
  then show ?thesis
    by (simp add: bs fold_js_max2_Some max.commute)
qed

lemma isFrameBeam_frame_beam:
  assumes "bs \<noteq> []"
  shows "isFrameBeam
           (fold (\<lambda>b a. js_min (js_min a (b_x1 b)) (b_x2 b)) bs None)
           (fold (\<lambda>b a. js_max (js_max a (b_x1 b)) (b_x2 b)) bs None)
           (fold (\<lambda>b a. js_min (js_min a (b_y1 b)) (b_y2 b)) bs None)
           (fold (\<lambda>b a. js_max (js_max a (b_y1 b)) (b_y2 b)) bs None) b 1 =
         frame_beam bs b"
  by (simp add: fold_js_min2_None [OF assms] fold_js_max2_None [OF assms] isFrameBeam_def
        frame_beam_def near_extreme_def beam_xs_def beam_ys_def)

lemma rangeIndices_iff:
  "i \<in> set (rangeIndices tc bs (getInclinationRange tc bs incl)) \<longleftrightarrow>
     i < length bs \<and> centerline_in_range tc bs incl (bs ! i)"
proof (cases "getInclinationRange tc bs incl")
  case None
  then show ?thesis by (simp add: rangeIndices_def centerline_in_range_def)
next
  case (Some r)
  have "minZ r \<le> maxZ r" using Some by (rule range_ordered)
  then have "min (minZ r) (maxZ r) = minZ r" "max (minZ r) (maxZ r) = maxZ r" by simp_all
  then show ?thesis
    using Some by (auto simp: rangeIndices_def centerline_in_range_def Let_def)
qed

lemma connected_to_range_iff:
  "connected_to_range tc bs incl b \<longleftrightarrow>
     (\<exists>j \<in> set (rangeIndices tc bs (getInclinationRange tc bs incl)).
         j < length bs \<and> beamsConnected b (bs ! j))"
proof
  assume "connected_to_range tc bs incl b"
  then obtain c where c: "c \<in> set bs" "centerline_in_range tc bs incl c" "beamsConnected b c"
    by (auto simp: connected_to_range_def list_ex_iff)
  from c(1) obtain j where j: "j < length bs" "bs ! j = c"
    by (auto simp: in_set_conv_nth)
  with c have "j \<in> set (rangeIndices tc bs (getInclinationRange tc bs incl))"
    by (simp add: rangeIndices_iff)
  with j c show "\<exists>j \<in> set (rangeIndices tc bs (getInclinationRange tc bs incl)).
                  j < length bs \<and> beamsConnected b (bs ! j)"
    by auto
next
  assume "\<exists>j \<in> set (rangeIndices tc bs (getInclinationRange tc bs incl)).
            j < length bs \<and> beamsConnected b (bs ! j)"
  then obtain j where j: "j \<in> set (rangeIndices tc bs (getInclinationRange tc bs incl))"
      "j < length bs" "beamsConnected b (bs ! j)"
    by auto
  from j(1) have "centerline_in_range tc bs incl (bs ! j)"
    by (simp add: rangeIndices_iff)
  moreover have "bs ! j \<in> set bs" using j(2) by simp
  ultimately show "connected_to_range tc bs incl b"
    using j(3) by (auto simp: connected_to_range_def list_ex_iff)
qed

subsection \<open>The inclination of each beam\<close>

text \<open>
  C6, with the in-range rule it rests on. In the resolved profile a beam whose centerline
  depth lies in the resolved depth range (tolerance 0.5) receives the requested angle. A
  beam outside the range that shares an endpoint (within one unit per coordinate) with
  some beam in range receives the requested angle if it is a frame beam and exactly one
  quarter of it otherwise. Every other beam receives zero.
\<close>

theorem connected_beam_inclination:
  assumes "i < length bs"
  shows "length (calculateBeamInclinations tc bs incl) = length bs \<and>
         radians (calculateBeamInclinations tc bs incl ! i) =
           (if centerline_in_range tc bs incl (bs ! i) then degrees incl * pi / 180
            else if connected_to_range tc bs incl (bs ! i) then
              (if frame_beam bs (bs ! i) then degrees incl * pi / 180
               else (degrees incl * pi / 180) / 4)
            else 0)"
proof -
  have ne: "bs \<noteq> []" using assms by auto
  let ?R = "rangeIndices tc bs (getInclinationRange tc bs incl)"
  let ?P = "\<lambda>j. j < length bs \<and> beamsConnected (bs ! i) (bs ! j)"
  have len: "length (calculateBeamInclinations tc bs incl) = length bs"
    using ne by (simp add: calculateBeamInclinations_def Let_def)
  have inr: "i \<in> set ?R \<longleftrightarrow> centerline_in_range tc bs incl (bs ! i)"
    using assms by (simp add: rangeIndices_iff)
  have conn: "find ?P ?R = None \<longleftrightarrow> \<not> connected_to_range tc bs incl (bs ! i)"
    by (auto simp: find_None_iff connected_to_range_iff)
  have val: "radians (calculateBeamInclinations tc bs incl ! i) =
      (if i \<in> set ?R then degrees incl * pi / 180
       else (case find ?P ?R of
               Some j \<Rightarrow> if frame_beam bs (bs ! i) then degrees incl * pi / 180
                          else degrees incl * pi / 180 * 0.25
             | None \<Rightarrow> 0))"
    using ne assms
    by (simp add: calculateBeamInclinations_def Let_def isFrameBeam_frame_beam
          split: option.split)
  show ?thesis
  proof (cases "find ?P ?R")
    case None
    with conn val inr len show ?thesis by simp
  next
    case (Some j)
    with conn have "connected_to_range tc bs incl (bs ! i)" by simp
    with Some val inr len show ?thesis by simp
  qed
qed

text \<open>
  On the four beams with the range of beam 0 alone and 20 degrees: the left side is
  connected and a frame beam and gets the full angle, the diagonal is connected and gets
  a quarter, the far beam is not connected and gets zero.
\<close>

theorem connected_beam_inclination_witness:
  "(2::nat) < length four_beams \<and>
   \<not> centerline_in_range \<lparr>v_x = 0, v_y = 0\<rparr> four_beams
        \<lparr>degrees = 20, startBeam = 0, endBeam = 0\<rparr> (four_beams ! 2) \<and>
   connected_to_range \<lparr>v_x = 0, v_y = 0\<rparr> four_beams
        \<lparr>degrees = 20, startBeam = 0, endBeam = 0\<rparr> (four_beams ! 2) \<and>
   \<not> frame_beam four_beams (four_beams ! 2) \<and>
   map radians (calculateBeamInclinations \<lparr>v_x = 0, v_y = 0\<rparr> four_beams
        \<lparr>degrees = 20, startBeam = 0, endBeam = 0\<rparr>) =
     [20 * pi / 180, 20 * pi / 180, 20 * pi / 180 / 4, 0]"
proof -
  let ?o = "\<lparr>v_x = 0, v_y = 0\<rparr>"
  let ?q = "\<lparr>degrees = 20, startBeam = 0, endBeam = 0\<rparr>"
  let ?res = "calculateBeamInclinations ?o four_beams ?q"
  have range: "getInclinationRange ?o four_beams ?q =
      Some \<lparr>startIndex = 0, endIndex = 0, minZ = 0, maxZ = 0, invert = False\<rparr>"
    by (simp add: getInclinationRange_def four_beams_def js_index_def Let_def)
  have len: "length four_beams = 4"
    by (simp add: four_beams_def)
  have inr: "centerline_in_range ?o four_beams ?q (four_beams ! 0)"
    "\<not> centerline_in_range ?o four_beams ?q (four_beams ! 1)"
    "\<not> centerline_in_range ?o four_beams ?q (four_beams ! 2)"
    "\<not> centerline_in_range ?o four_beams ?q (four_beams ! 3)"
    unfolding centerline_in_range_def range
    by (simp_all add: four_beams_def)
  have inr': "centerline_in_range ?o four_beams ?q c \<longleftrightarrow>
                \<bar>(b_y1 c + b_y2 c) / 2\<bar> \<le> 0.5" for c
    by (auto simp: centerline_in_range_def range)
  have conn: "connected_to_range ?o four_beams ?q (four_beams ! 1)"
    "connected_to_range ?o four_beams ?q (four_beams ! 2)"
    "\<not> connected_to_range ?o four_beams ?q (four_beams ! 3)"
    unfolding connected_to_range_def inr'
    by (simp_all add: four_beams_def beamsConnected_def pointsEqual_def)
  have ext: "Min (set (beam_xs four_beams)) = 0" "Max (set (beam_xs four_beams)) = 500"
    "Min (set (beam_ys four_beams)) = 0" "Max (set (beam_ys four_beams)) = 300"
    by (simp_all add: beam_xs_def beam_ys_def four_beams_def)
  have frame: "frame_beam four_beams (four_beams ! 1)" "\<not> frame_beam four_beams (four_beams ! 2)"
    unfolding frame_beam_def ext
    by (simp_all add: four_beams_def)
  have r0: "radians (?res ! 0) = 20 * pi / 180"
    using connected_beam_inclination [of 0 four_beams ?o ?q] inr by (simp add: len)
  have r1: "radians (?res ! 1) = 20 * pi / 180"
    using connected_beam_inclination [of 1 four_beams ?o ?q] inr conn frame by (simp add: len)
  have r2: "radians (?res ! 2) = 20 * pi / 180 / 4"
    using connected_beam_inclination [of 2 four_beams ?o ?q] inr conn frame by (simp add: len)
  have r3: "radians (?res ! 3) = 0"
    using connected_beam_inclination [of 3 four_beams ?o ?q] inr conn by (simp add: len)
  have l: "length ?res = 4"
    using connected_beam_inclination [of 0 four_beams ?o ?q] by (simp add: len)
  have "map radians ?res = [20 * pi / 180, 20 * pi / 180, 20 * pi / 180 / 4, 0]"
  proof (rule nth_equalityI)
    show "length (map radians ?res) = length [20 * pi / 180, 20 * pi / 180, 20 * pi / 180 / 4, 0::real]"
      by (simp add: l)
    fix i assume "i < length (map radians ?res)"
    then have "i = 0 \<or> i = 1 \<or> i = 2 \<or> i = 3" using l by auto
    then show "map radians ?res ! i = [20 * pi / 180, 20 * pi / 180, 20 * pi / 180 / 4, 0] ! i"
      using r0 r1 r2 r3 l by auto
  qed
  then show ?thesis
    using inr conn frame by (simp add: len)
qed

section \<open>Facts about the panel support\<close>

lemma beamRadAt_nth: "i < length bis \<Longrightarrow> beamRadAt bis (int i) = radians (bis ! i)"
  by (simp add: beamRadAt_def)

lemma fold_tiltStep:
  "fold (tiltStep bis bs p) xs (m, acc) =
     (fold max (map (\<lambda>i. beamRadAt bis (int i))
                  (filter (\<lambda>i. segmentIntersectsRect (b_x1 (bs ! i)) (b_y1 (bs ! i))
                                  (b_x2 (bs ! i)) (b_y2 (bs ! i)) (panelRect p)) xs)) m,
      acc @ filter (\<lambda>i. segmentIntersectsRect (b_x1 (bs ! i)) (b_y1 (bs ! i))
                           (b_x2 (bs ! i)) (b_y2 (bs ! i)) (panelRect p)) xs)"
proof (induction xs arbitrary: m acc)
  case Nil
  show ?case by simp
next
  case (Cons x xs)
  show ?case
  proof (cases "segmentIntersectsRect (b_x1 (bs ! x)) (b_y1 (bs ! x)) (b_x2 (bs ! x))
                  (b_y2 (bs ! x)) (panelRect p)")
    case False
    then have "tiltStep bis bs p x (m, acc) = (m, acc)"
      by (simp add: tiltStep_def)
    with False Cons.IH show ?thesis by simp
  next
    case True
    then have "tiltStep bis bs p x (m, acc) = (max (beamRadAt bis (int x)) m, acc @ [x])"
      by (simp add: tiltStep_def Let_def max_def)
    with True Cons.IH show ?thesis by simp
  qed
qed

lemma fold_max_Max:
  assumes "l \<noteq> []"
  shows "fold max l (m::real) = max m (Max (set l))"
proof -
  have "fold max l m = Max (set (m # l))" by (simp only: Max.set_eq_fold)
  also have "\<dots> = max m (Max (set l))" using assms by simp
  finally show ?thesis .
qed

lemma tilt_loop:
  assumes "length bis = length bs"
  shows "fold (tiltStep bis bs p) [0..<length bs] (0, []) =
           (fold max (map (\<lambda>i. radians (bis ! i)) (intersecting_beams p bs)) 0,
            intersecting_beams p bs)"
proof -
  have "map (\<lambda>i. beamRadAt bis (int i)) (intersecting_beams p bs) =
        map (\<lambda>i. radians (bis ! i)) (intersecting_beams p bs)"
    using assms by (intro map_cong) (auto simp: intersecting_beams_def beamRadAt_nth)
  moreover have "fold (tiltStep bis bs p) [0..<length bs] (0, []) =
      (fold max (map (\<lambda>i. beamRadAt bis (int i)) (intersecting_beams p bs)) 0,
       intersecting_beams p bs)"
    by (simp add: fold_tiltStep intersecting_beams_def)
  ultimately show ?thesis by (simp only:)
qed

lemma nearestStep_Some:
  "nearestStep p bs i (Some d, k) =
     (if panel_distance p (bs ! i) < d then (Some (panel_distance p (bs ! i)), int i)
      else (Some d, k))"
  by (simp add: nearestStep_def panel_distance_def Let_def)

lemma nearestStep_None:
  "nearestStep p bs i (None, k) = (Some (panel_distance p (bs ! i)), int i)"
  by (simp add: nearestStep_def panel_distance_def Let_def)

lemma fold_nearestStep:
  assumes "\<forall>j \<in> S. panel_distance p (bs ! k) \<le> panel_distance p (bs ! j)"
  shows "\<exists>k'. fold (nearestStep p bs) xs (Some (panel_distance p (bs ! k)), int k) =
                 (Some (panel_distance p (bs ! k')), int k') \<and>
               k' \<in> insert k (set xs) \<and>
               (\<forall>j \<in> S \<union> set xs. panel_distance p (bs ! k') \<le> panel_distance p (bs ! j))"
  using assms
proof (induction xs arbitrary: k S)
  case Nil
  then show ?case by auto
next
  case (Cons x xs)
  show ?case
  proof (cases "panel_distance p (bs ! x) < panel_distance p (bs ! k)")
    case True
    have "\<forall>j \<in> insert x S. panel_distance p (bs ! x) \<le> panel_distance p (bs ! j)"
      using True Cons.prems by fastforce
    from Cons.IH [OF this] obtain k' where
      "fold (nearestStep p bs) xs (Some (panel_distance p (bs ! x)), int x) =
         (Some (panel_distance p (bs ! k')), int k')"
      "k' \<in> insert x (set xs)"
      "\<forall>j \<in> insert x S \<union> set xs. panel_distance p (bs ! k') \<le> panel_distance p (bs ! j)"
      by blast
    with True show ?thesis
      by (intro exI [of _ k']) (auto simp: nearestStep_Some)
  next
    case False
    have "\<forall>j \<in> insert x S. panel_distance p (bs ! k) \<le> panel_distance p (bs ! j)"
      using False Cons.prems by fastforce
    from Cons.IH [OF this] obtain k' where
      "fold (nearestStep p bs) xs (Some (panel_distance p (bs ! k)), int k) =
         (Some (panel_distance p (bs ! k')), int k')"
      "k' \<in> insert k (set xs)"
      "\<forall>j \<in> insert x S \<union> set xs. panel_distance p (bs ! k') \<le> panel_distance p (bs ! j)"
      by blast
    with False show ?thesis
      by (intro exI [of _ k']) (auto simp: nearestStep_Some)
  qed
qed

lemma getNearestBeamIndex_nearest:
  assumes "bs \<noteq> []"
  shows "\<exists>k. getNearestBeamIndex p bs = int k \<and> is_nearest p bs k"
proof -
  have n: "0 < length bs" using assms by simp
  then have idx: "[0..<length bs] = 0 # [1..<length bs]"
    by (simp add: upt_conv_Cons)
  have "\<forall>j \<in> {0::nat}. panel_distance p (bs ! 0) \<le> panel_distance p (bs ! j)" by simp
  from fold_nearestStep [OF this, of "[1..<length bs]"] obtain k where
    k: "fold (nearestStep p bs) [1..<length bs] (Some (panel_distance p (bs ! 0)), int 0) =
          (Some (panel_distance p (bs ! k)), int k)"
       "k \<in> insert 0 (set [1..<length bs])"
       "\<forall>j \<in> {0} \<union> set [1..<length bs]. panel_distance p (bs ! k) \<le> panel_distance p (bs ! j)"
    by blast
  have "getNearestBeamIndex p bs = int k"
    using assms k(1) by (simp add: getNearestBeamIndex_def idx nearestStep_None)
  moreover have "k < length bs" using k(2) n by auto
  moreover have "panel_distance p (bs ! k) \<le> panel_distance p b" if "b \<in> set bs" for b
  proof -
    from that obtain j where j: "j < length bs" "bs ! j = b" by (auto simp: in_set_conv_nth)
    then have "j \<in> {0} \<union> set [1..<length bs]" by (cases j) auto
    with k(3) j show ?thesis by auto
  qed
  ultimately show ?thesis
    by (auto simp: is_nearest_def list_all_iff)
qed

lemma panelInclRad_cases:
  assumes "length bis = length bs"
  shows "panelInclRad bis bs p =
           (if intersecting_beams p bs \<noteq> [] then
              max 0 (Max (set (map (\<lambda>i. radians (bis ! i)) (intersecting_beams p bs))))
            else if bs = [] then 0
            else radians (bis ! nat (getNearestBeamIndex p bs)))"
proof (cases "intersecting_beams p bs = []")
  case False
  then show ?thesis
    by (simp add: panelInclRad_def tilt_loop [OF assms] fold_max_Max Let_def)
next
  case True
  show ?thesis
  proof (cases "bs = []")
    case empty: True
    then show ?thesis
      by (simp add: panelInclRad_def getNearestBeamIndex_def intersecting_beams_def Let_def)
  next
    case False
    then obtain k where k: "getNearestBeamIndex p bs = int k" "is_nearest p bs k"
      using getNearestBeamIndex_nearest by blast
    then have "k < length bis" using assms by (simp add: is_nearest_def)
    with k True False show ?thesis
      by (simp add: panelInclRad_def tilt_loop [OF assms] Let_def beamRadAt_nth)
  qed
qed

lemma calculateBeamInclinations_length [simp]:
  "length (calculateBeamInclinations tc bs incl) = length bs"
  by (simp add: calculateBeamInclinations_def Let_def)

lemma calculateBeamInclinations_values:
  assumes "i < length bs"
  shows "radians (calculateBeamInclinations tc bs incl ! i) \<in>
           {degrees incl * pi / 180, degrees incl * pi / 180 * 0.25, 0}"
  using assms
  by (auto simp: calculateBeamInclinations_def Let_def split: option.splits)

lemma calculateBeamInclinations_nonneg:
  assumes "i < length bs" and "0 \<le> degrees incl"
  shows "0 \<le> radians (calculateBeamInclinations tc bs incl ! i)"
proof -
  have "0 \<le> degrees incl * pi / 180" using assms(2) by simp
  moreover have "0 \<le> degrees incl * pi / 180 * 0.25" using assms(2) by simp
  ultimately show ?thesis
    using calculateBeamInclinations_values [OF assms(1), of tc incl] by auto
qed

lemma Max_nonneg:
  assumes "l \<noteq> []" and "\<forall>x \<in> set l. 0 \<le> (x::real)"
  shows "max 0 (Max (set l)) = Max (set l)"
proof -
  obtain x where "x \<in> set l" using assms(1) by (cases l) auto
  then have "0 \<le> Max (set l)"
    using assms(2) by (meson List.finite_set Max_ge order_trans)
  then show ?thesis by simp
qed

subsection \<open>The effective tilt of a panel\<close>

text \<open>
  What \<open>_buildPanels\<close> computes, for every panel and beam collection with the resolved
  per-beam tilts: if some beam's segment intersects the panel's rectangle, the maximum of
  zero and the tilts of the intersecting beams, which is the maximum tilt over the
  intersecting beams whenever the requested angle is not negative; if no beam intersects,
  the tilt of one nearest beam to the panel's center by point-to-segment distance;
  without beams, zero. It is never an average.
\<close>

theorem panel_tilt_computed:
  "(intersecting_beams p bs \<noteq> [] \<longrightarrow>
      buildPanels_inclRad tc bs incl p =
        max 0 (Max (set (map (\<lambda>i. radians (calculateBeamInclinations tc bs incl ! i))
                           (intersecting_beams p bs))))) \<and>
   (intersecting_beams p bs \<noteq> [] \<and> 0 \<le> degrees incl \<longrightarrow>
      buildPanels_inclRad tc bs incl p =
        Max (set (map (\<lambda>i. radians (calculateBeamInclinations tc bs incl ! i))
                    (intersecting_beams p bs)))) \<and>
   (intersecting_beams p bs = [] \<and> bs \<noteq> [] \<longrightarrow>
      (\<exists>k. is_nearest p bs k \<and>
           buildPanels_inclRad tc bs incl p = radians (calculateBeamInclinations tc bs incl ! k))) \<and>
   (bs = [] \<longrightarrow> buildPanels_inclRad tc bs incl p = 0)"
proof -
  let ?bis = "calculateBeamInclinations tc bs incl"
  let ?I = "intersecting_beams p bs"
  have cases: "buildPanels_inclRad tc bs incl p =
      (if ?I \<noteq> [] then max 0 (Max (set (map (\<lambda>i. radians (?bis ! i)) ?I)))
       else if bs = [] then 0
       else radians (?bis ! nat (getNearestBeamIndex p bs)))"
    unfolding buildPanels_inclRad_def by (rule panelInclRad_cases) simp
  have a: "buildPanels_inclRad tc bs incl p = max 0 (Max (set (map (\<lambda>i. radians (?bis ! i)) ?I)))"
    if "?I \<noteq> []"
    using that cases by simp
  have b: "buildPanels_inclRad tc bs incl p = Max (set (map (\<lambda>i. radians (?bis ! i)) ?I))"
    if "?I \<noteq> []" and "0 \<le> degrees incl"
  proof -
    have nn: "\<forall>x \<in> set (map (\<lambda>i. radians (?bis ! i)) ?I). 0 \<le> x"
      using that(2) by (auto simp: intersecting_beams_def calculateBeamInclinations_nonneg)
    have ne: "map (\<lambda>i. radians (?bis ! i)) ?I \<noteq> []" using that(1) by simp
    show ?thesis
      unfolding a [OF that(1)] by (rule Max_nonneg [OF ne nn])
  qed
  have c: "\<exists>k. is_nearest p bs k \<and> buildPanels_inclRad tc bs incl p = radians (?bis ! k)"
    if none: "?I = []" and some: "bs \<noteq> []"
  proof -
    obtain k where "getNearestBeamIndex p bs = int k" "is_nearest p bs k"
      using getNearestBeamIndex_nearest [OF some] by blast
    with none some cases show ?thesis by auto
  qed
  have d: "buildPanels_inclRad tc bs incl p = 0" if "bs = []"
    using that cases by (simp add: intersecting_beams_def)
  show ?thesis using a b c d by blast
qed

text \<open>
  Over the three beams with 20 degrees from beam 2 on, the tilts are 0, 0 and 20 degrees.
  The panel at the origin is crossed by all three beams and takes the steepest tilt; the
  panel beyond the last beam is crossed by none and takes the tilt of beam 2, the nearest.
\<close>

theorem panel_tilt_computed_witness:
  "intersecting_beams near_panel three_beams \<noteq> [] \<and> (0::real) \<le> 20 \<and>
   buildPanels_inclRad \<lparr>v_x = 0, v_y = 0\<rparr> three_beams
      \<lparr>degrees = 20, startBeam = 2, endBeam = -1\<rparr> near_panel = 20 * pi / 180 \<and>
   intersecting_beams far_panel three_beams = [] \<and> three_beams \<noteq> [] \<and>
   buildPanels_inclRad \<lparr>v_x = 0, v_y = 0\<rparr> three_beams
      \<lparr>degrees = 20, startBeam = 2, endBeam = -1\<rparr> far_panel = 20 * pi / 180 \<and>
   buildPanels_inclRad \<lparr>v_x = 0, v_y = 0\<rparr> []
      \<lparr>degrees = 20, startBeam = 2, endBeam = -1\<rparr> far_panel = 0"
proof -
  let ?o = "\<lparr>v_x = 0, v_y = 0\<rparr>"
  let ?q = "\<lparr>degrees = 20, startBeam = 2, endBeam = -1\<rparr>"
  let ?res = "calculateBeamInclinations ?o three_beams ?q"
  have len: "length three_beams = 3" by (simp add: three_beams_def)
  have ne: "three_beams \<noteq> []" by (simp add: three_beams_def)
  have tilts: "map radians ?res = [0, 0, 20 * pi / 180]"
    by (simp add: calculateBeamInclinations_def getInclinationRange_def rangeIndices_def
          rangeStep_def js_index_def three_beams_def Let_def upt_conv_Cons upto_rec1
          beamsConnected_def pointsEqual_def)
  have tilt: "radians (?res ! i) = [0, 0, 20 * pi / 180] ! i" if "i < 3" for i
  proof -
    have "radians (?res ! i) = map radians ?res ! i" using that by (simp add: len)
    then show ?thesis by (simp only: tilts)
  qed
  have near: "intersecting_beams near_panel three_beams = [0, 1, 2]"
    by (simp add: intersecting_beams_def near_panel_def three_beams_def panelRect_def realH_def
          segmentIntersectsRect_def pointInRect_def upt_conv_Cons)
  have far: "intersecting_beams far_panel three_beams = []"
    by (simp add: intersecting_beams_def far_panel_def three_beams_def panelRect_def realH_def
          segmentIntersectsRect_def pointInRect_def upt_conv_Cons segmentsIntersect_def
          orientation_def onSegment_def epsilon_def Let_def)
  have dist: "map (panel_distance far_panel) three_beams = [1114, 1014, 914]"
    by (simp add: panel_distance_def far_panel_def three_beams_def distancePointToSegment_def
          Let_def)
  have a: "buildPanels_inclRad ?o three_beams ?q near_panel = 20 * pi / 180"
    using panel_tilt_computed [of near_panel three_beams ?o ?q]
    by (simp add: near tilt)
  obtain k where k: "is_nearest far_panel three_beams k"
    "buildPanels_inclRad ?o three_beams ?q far_panel = radians (?res ! k)"
    using panel_tilt_computed [of far_panel three_beams ?o ?q] far ne by auto
  have "k < 3" using k(1) by (simp add: is_nearest_def len)
  moreover have "panel_distance far_panel (three_beams ! k) \<le> 914"
    using k(1) dist by (auto simp: is_nearest_def three_beams_def)
  moreover have "panel_distance far_panel (three_beams ! j) = [1114, 1014, 914] ! j" if "j < 3" for j
  proof -
    have "panel_distance far_panel (three_beams ! j) =
          map (panel_distance far_panel) three_beams ! j"
      using that by (simp add: len)
    then show ?thesis by (simp only: dist)
  qed
  ultimately have "k = 2"
    by (cases "k = 0"; cases "k = 1"; cases "k = 2") auto
  with k(2) have b: "buildPanels_inclRad ?o three_beams ?q far_panel = 20 * pi / 180"
    by (simp add: tilt)
  have c: "buildPanels_inclRad ?o [] ?q far_panel = 0"
    using panel_tilt_computed [of far_panel "[]" ?o ?q] by simp
  show ?thesis using a b c near far ne by simp
qed

text \<open>
  C5 on the code. The running maximum of \<open>_buildPanels\<close> starts at zero, so it
  misses a maximum that is negative. With a requested angle of -20 degrees over the three
  beams, each beam has the tilt of -20 degrees; the panel at the origin is crossed by all
  three, the maximum tilt over the beams that intersect it is -20 degrees, and the
  panel's tilt comes out as zero.
\<close>

theorem panel_tilt_misses_negative_maximum:
  "intersecting_beams near_panel three_beams = [0, 1, 2] \<and>
   map radians (calculateBeamInclinations \<lparr>v_x = 0, v_y = 0\<rparr> three_beams
      \<lparr>degrees = -20, startBeam = 0, endBeam = -1\<rparr>) =
     [- 20 * pi / 180, - 20 * pi / 180, - 20 * pi / 180] \<and>
   Max (set (map (\<lambda>i. radians (calculateBeamInclinations \<lparr>v_x = 0, v_y = 0\<rparr> three_beams
                                \<lparr>degrees = -20, startBeam = 0, endBeam = -1\<rparr> ! i))
               (intersecting_beams near_panel three_beams))) = - 20 * pi / 180 \<and>
   buildPanels_inclRad \<lparr>v_x = 0, v_y = 0\<rparr> three_beams
      \<lparr>degrees = -20, startBeam = 0, endBeam = -1\<rparr> near_panel = 0 \<and>
   (- 20 * pi / 180 :: real) < 0"
proof -
  let ?o = "\<lparr>v_x = 0, v_y = 0\<rparr>"
  let ?q = "\<lparr>degrees = -20, startBeam = 0, endBeam = -1\<rparr>"
  let ?res = "calculateBeamInclinations ?o three_beams ?q"
  have len: "length three_beams = 3" by (simp add: three_beams_def)
  have tilts: "map radians ?res = [- 20 * pi / 180, - 20 * pi / 180, - 20 * pi / 180]"
    by (simp add: calculateBeamInclinations_def getInclinationRange_def rangeIndices_def
          rangeStep_def js_index_def three_beams_def Let_def upt_conv_Cons upto_rec1)
  have tilt: "radians (?res ! i) = - 20 * pi / 180" if "i < 3" for i
  proof -
    have "radians (?res ! i) = map radians ?res ! i" using that by (simp add: len)
    also have "\<dots> = - 20 * pi / 180"
    proof -
      have "i = 0 \<or> i = 1 \<or> i = 2" using that by auto
      then show ?thesis unfolding tilts by auto
    qed
    finally show ?thesis .
  qed
  have near: "intersecting_beams near_panel three_beams = [0, 1, 2]"
    by (simp add: intersecting_beams_def near_panel_def three_beams_def panelRect_def realH_def
          segmentIntersectsRect_def pointInRect_def upt_conv_Cons)
  have mx: "Max (set (map (\<lambda>i. radians (?res ! i)) (intersecting_beams near_panel three_beams))) =
            - 20 * pi / 180"
    by (simp add: near tilt)
  have "buildPanels_inclRad ?o three_beams ?q near_panel =
          max 0 (Max (set (map (\<lambda>i. radians (?res ! i)) (intersecting_beams near_panel three_beams))))"
    unfolding buildPanels_inclRad_def
    by (subst panelInclRad_cases) (simp_all add: near)
  then have zero: "buildPanels_inclRad ?o three_beams ?q near_panel = 0"
    unfolding mx by simp
  show ?thesis using near tilts mx zero by simp
qed

section \<open>Facts about the area selection\<close>

text \<open>
  C8 on the code. The segment from (6, 0) to (9, 0) lies on the top edge, from (5, 0) to
  (15, 0), of the selection rectangle at (5, 0) of size 10 by 10: the two segments share
  the point (7, 0). The determinant of the parametric test is zero, so
  \<open>_linesIntersect\<close> answers false; the other three edges are not met, so
  \<open>_lineIntersectsRect\<close> answers false and the area selection leaves the beam out.
  The orientation and on-segment test of the viewer accepts the same pair of segments and
  the same rectangle.
\<close>

theorem linesIntersect_misses_collinear_overlap:
  "segments_share_point 6 0 9 0 5 0 15 0 \<and>
   linesIntersect 6 0 9 0 5 0 15 0 = False \<and>
   lineIntersectsRect 6 0 9 0 \<lparr>r_x = 5, r_y = 0, r_w = 10, r_h = 10\<rparr> = False \<and>
   areaSelectBeams edge_beam_layout \<lparr>r_x = 5, r_y = 0, r_w = 10, r_h = 10\<rparr> = [] \<and>
   segmentsIntersect \<lparr>v_x = 6, v_y = 0\<rparr> \<lparr>v_x = 9, v_y = 0\<rparr> \<lparr>v_x = 5, v_y = 0\<rparr> \<lparr>v_x = 15, v_y = 0\<rparr> = True \<and>
   segmentIntersectsRect 6 0 9 0 \<lparr>minX = 5, maxX = 15, minY = 0, maxY = 10\<rparr> = True"
proof -
  have "point_on_segment 7 0 6 0 9 0"
    unfolding point_on_segment_def by (rule exI [of _ "1 / 3"]) simp
  moreover have "point_on_segment 7 0 5 0 15 0"
    unfolding point_on_segment_def by (rule exI [of _ "1 / 5"]) simp
  ultimately have share: "segments_share_point 6 0 9 0 5 0 15 0"
    unfolding segments_share_point_def by blast
  have l: "linesIntersect 6 0 9 0 5 0 15 0 = False"
    by (simp add: linesIntersect_def)
  have r: "lineIntersectsRect 6 0 9 0 \<lparr>r_x = 5, r_y = 0, r_w = 10, r_h = 10\<rparr> = False"
    by (simp add: lineIntersectsRect_def linesIntersect_def)
  have a: "areaSelectBeams edge_beam_layout \<lparr>r_x = 5, r_y = 0, r_w = 10, r_h = 10\<rparr> = []"
    by (simp add: areaSelectBeams_def edge_beam_layout_def newEditor2D_def
          lineIntersectsRect_def linesIntersect_def)
  have s: "segmentsIntersect \<lparr>v_x = 6, v_y = 0\<rparr> \<lparr>v_x = 9, v_y = 0\<rparr> \<lparr>v_x = 5, v_y = 0\<rparr>
             \<lparr>v_x = 15, v_y = 0\<rparr> = True"
    by (simp add: segmentsIntersect_def orientation_def onSegment_def epsilon_def)
  have v: "segmentIntersectsRect 6 0 9 0 \<lparr>minX = 5, maxX = 15, minY = 0, maxY = 10\<rparr> = True"
    by (simp add: segmentIntersectsRect_def pointInRect_def)
  show ?thesis using share l r a s v by simp
qed

section \<open>Facts about export and import\<close>






lemma confirmTerrace_scale [simp]: "scale (confirmTerrace s) = scale s"
  by (simp add: confirmTerrace_def Let_def split: option.split)

lemma setRectangularTerrace_scale [simp]: "scale (setRectangularTerrace w h s) = scale s"
  by (simp add: setRectangularTerrace_def Let_def split: option.split)


























subsection \<open>Round trip\<close>




end
